theory Spec2Isabelle
  imports Main "HOL-Library.AList"
begin

section \<open>Values\<close>

text \<open>
  Configuration documents are JSON-like trees. One datatype stands both for plain
  JavaScript values (what the YAML parser returns, what \<^verbatim>\<open>toJS\<close> produces) and for
  Immutable.js values (what \<^verbatim>\<open>fromJS\<close> produces): \<open>JMap\<close> is a plain object or an
  Immutable \<^verbatim>\<open>Map\<close>, \<open>JList\<close> a plain array or an Immutable \<^verbatim>\<open>List\<close>. A \<open>JMap\<close>
  lists the own enumerable properties of the object in enumeration order; numbers are
  the integers.
\<close>

datatype jsval =
    JUndefined
  | JNull
  | JBool bool
  | JNum int
  | JStr string
  | JList "jsval list"
  | JMap "(string \<times> jsval) list"

datatype load_cause = Status int | Failure string | ResponseObject

datatype error =
    TypeError
  | InvalidKeyPath
  | LoadError load_cause
  | External string

text \<open>
  The outcome of a computation: a value, a thrown error, or \<open>Unmodelled\<close> where the
  code runs into behaviour of the JavaScript runtime or of Immutable.js that this
  development does not describe (entry sequences, string renderings of collections,
  properties inherited from prototypes). Nothing is claimed about such runs.
\<close>

datatype 'a result = Ok 'a | Throw error | Unmodelled

fun and_then :: "'a result \<Rightarrow> ('a \<Rightarrow> 'b result) \<Rightarrow> 'b result" where
  "and_then (Ok x) f = f x"
| "and_then (Throw e) f = Throw e"
| "and_then Unmodelled f = Unmodelled"

fun of_option :: "'a option \<Rightarrow> 'a result" where
  "of_option None = Unmodelled"
| "of_option (Some x) = Ok x"

text \<open>JavaScript truthiness: \<^verbatim>\<open>undefined\<close>, \<^verbatim>\<open>null\<close>, \<^verbatim>\<open>false\<close>, \<^verbatim>\<open>0\<close> and \<^verbatim>\<open>''\<close> are falsy.\<close>

fun truthy :: "jsval \<Rightarrow> bool" where
  "truthy JUndefined = False"
| "truthy JNull = False"
| "truthy (JBool b) = b"
| "truthy (JNum n) = (n \<noteq> 0)"
| "truthy (JStr s) = (s \<noteq> [])"
| "truthy (JList xs) = True"
| "truthy (JMap kvs) = True"


text \<open>\<^verbatim>\<open>fromJS\<close> and \<^verbatim>\<open>toJS\<close> convert between the plain and the Immutable form of a tree.\<close>

definition fromJS :: "jsval \<Rightarrow> jsval" where
  "fromJS v = v"

definition toJS :: "jsval \<Rightarrow> jsval" where
  "toJS v = v"

subsection \<open>Immutable maps\<close>

text \<open>\<^verbatim>\<open>map.get(k)\<close>, \<^verbatim>\<open>map.has(k)\<close>, \<^verbatim>\<open>map.set(k, v)\<close> and \<^verbatim>\<open>map.size\<close>.\<close>

definition map_get :: "(string \<times> jsval) list \<Rightarrow> string \<Rightarrow> jsval" where
  "map_get kvs k = (case map_of kvs k of None \<Rightarrow> JUndefined | Some v \<Rightarrow> v)"

definition map_has :: "(string \<times> jsval) list \<Rightarrow> string \<Rightarrow> bool" where
  "map_has kvs k = (map_of kvs k \<noteq> None)"

definition map_set :: "(string \<times> jsval) list \<Rightarrow> string \<Rightarrow> jsval \<Rightarrow> (string \<times> jsval) list" where
  "map_set kvs k v = AList.update k v kvs"

definition map_size :: "(string \<times> jsval) list \<Rightarrow> nat" where
  "map_size kvs = length kvs"

text \<open>
  \<^verbatim>\<open>mergeDeep\<close> of Immutable.js 3.8. \<open>deepMerger existing value\<close> merges two collections
  (\<^verbatim>\<open>existing && existing.mergeDeep && isIterable(value)\<close>) and otherwise returns
  \<open>value\<close>. A map is merged key by key, a list index by index; a new key is appended, a
  longer list keeps its tail. An empty collection merges as nothing. Merging a non-empty
  list into a map, or a non-empty map into a list, goes through entry sequences and is
  \<open>None\<close> here.
\<close>

fun deepMerger :: "jsval \<Rightarrow> jsval \<Rightarrow> jsval option"
  and mergeMap :: "(string \<times> jsval) list \<Rightarrow> (string \<times> jsval) list \<Rightarrow> (string \<times> jsval) list option"
  and mergeList :: "jsval list \<Rightarrow> jsval list \<Rightarrow> jsval list option"
where
  "deepMerger (JMap a) (JMap b) = map_option JMap (mergeMap a b)"
| "deepMerger (JList a) (JList b) = map_option JList (mergeList a b)"
| "deepMerger (JMap a) (JList b) = (if b = [] then Some (JMap a) else None)"
| "deepMerger (JList a) (JMap b) = (if b = [] then Some (JList a) else None)"
| "deepMerger JUndefined v = Some v"
| "deepMerger JNull v = Some v"
| "deepMerger (JBool x) v = Some v"
| "deepMerger (JNum x) v = Some v"
| "deepMerger (JStr x) v = Some v"
| "deepMerger (JMap a) JUndefined = Some JUndefined"
| "deepMerger (JMap a) JNull = Some JNull"
| "deepMerger (JMap a) (JBool y) = Some (JBool y)"
| "deepMerger (JMap a) (JNum y) = Some (JNum y)"
| "deepMerger (JMap a) (JStr y) = Some (JStr y)"
| "deepMerger (JList a) JUndefined = Some JUndefined"
| "deepMerger (JList a) JNull = Some JNull"
| "deepMerger (JList a) (JBool y) = Some (JBool y)"
| "deepMerger (JList a) (JNum y) = Some (JNum y)"
| "deepMerger (JList a) (JStr y) = Some (JStr y)"
| "mergeMap a [] = Some a"
| "mergeMap a ((k, v) # b) =
     (case map_of a k of
        None \<Rightarrow> mergeMap (a @ [(k, v)]) b
      | Some e \<Rightarrow>
          (case deepMerger e v of
             None \<Rightarrow> None
           | Some m \<Rightarrow> mergeMap (AList.update k m a) b))"
| "mergeList a [] = Some a"
| "mergeList [] (v # b) = Some (v # b)"
| "mergeList (e # a) (v # b) =
     (case deepMerger e v of
        None \<Rightarrow> None
      | Some m \<Rightarrow> map_option ((#) m) (mergeList a b))"

text \<open>
  \<^verbatim>\<open>map.mergeDeep(arg)\<close> on a map, as called from the source. \<^verbatim>\<open>undefined\<close> and
  \<^verbatim>\<open>null\<close> are empty sequences; a number, a boolean or a string is no keyed sequence
  and raises a \<^verbatim>\<open>TypeError\<close>.
\<close>

fun map_mergeDeep :: "(string \<times> jsval) list \<Rightarrow> jsval \<Rightarrow> (string \<times> jsval) list result" where
  "map_mergeDeep a (JMap b) = of_option (mergeMap a b)"
| "map_mergeDeep a (JList b) = (if b = [] then Ok a else Unmodelled)"
| "map_mergeDeep a JUndefined = Ok a"
| "map_mergeDeep a JNull = Ok a"
| "map_mergeDeep a (JBool y) = Throw TypeError"
| "map_mergeDeep a (JNum y) = Throw TypeError"
| "map_mergeDeep a (JStr y) = Throw TypeError"

text \<open>
  \<^verbatim>\<open>map.getIn(['slug', k])\<close> and \<^verbatim>\<open>map.setIn(['slug', k], v)\<close>, for a sub-key \<open>k\<close> that
  is no list index (the source passes \<^verbatim>\<open>encoding\<close>, \<^verbatim>\<open>clean_accents\<close> and
  \<^verbatim>\<open>sanitize_replacement\<close>). \<^verbatim>\<open>getIn\<close> stops with \<^verbatim>\<open>undefined\<close> at a value that has no
  \<^verbatim>\<open>get\<close>; \<^verbatim>\<open>setIn\<close> creates the missing map, leaves a list as it is (the key is no
  index) and fails with \<^verbatim>\<open>invalid keyPath\<close> on any other value.
\<close>

definition getIn_slug :: "(string \<times> jsval) list \<Rightarrow> string \<Rightarrow> jsval" where
  "getIn_slug m k =
     (case map_of m ''slug'' of
        Some (JMap s) \<Rightarrow> map_get s k
      | _ \<Rightarrow> JUndefined)"

definition setIn_slug ::
  "(string \<times> jsval) list \<Rightarrow> string \<Rightarrow> jsval \<Rightarrow> (string \<times> jsval) list result" where
  "setIn_slug m k v =
     (case map_of m ''slug'' of
        None \<Rightarrow> Ok (map_set m ''slug'' (JMap (map_set [] k v)))
      | Some (JMap s) \<Rightarrow> Ok (map_set m ''slug'' (JMap (map_set s k v)))
      | Some (JList xs) \<Rightarrow> Ok m
      | Some _ \<Rightarrow> Throw InvalidKeyPath)"

text \<open>The method call \<^verbatim>\<open>x.toJS()\<close>: only collections have the method.\<close>

fun toJS_call :: "jsval \<Rightarrow> jsval result" where
  "toJS_call (JMap kvs) = Ok (toJS (JMap kvs))"
| "toJS_call (JList xs) = Ok (toJS (JList xs))"
| "toJS_call v = Throw TypeError"

text \<open>
  Mapping a callback that may throw over a list, left to right, and the method call
  \<^verbatim>\<open>x.map(f)\<close> on an Immutable value: a list maps its elements, a map its values (keys
  stay), anything else has no \<^verbatim>\<open>map\<close> method.
\<close>

fun map_result :: "('a \<Rightarrow> 'b result) \<Rightarrow> 'a list \<Rightarrow> 'b list result" where
  "map_result f [] = Ok []"
| "map_result f (x # xs) =
     and_then (f x) (\<lambda>y. and_then (map_result f xs) (\<lambda>ys. Ok (y # ys)))"

fun coll_map :: "(jsval \<Rightarrow> jsval result) \<Rightarrow> jsval \<Rightarrow> jsval result" where
  "coll_map f (JList xs) = and_then (map_result f xs) (\<lambda>ys. Ok (JList ys))"
| "coll_map f (JMap kvs) =
     and_then (map_result (\<lambda>kv. and_then (f (snd kv)) (\<lambda>y. Ok (fst kv, y))) kvs)
       (\<lambda>ys. Ok (JMap ys))"
| "coll_map f v = Throw TypeError"

subsection \<open>lodash and strings\<close>

text \<open>
  lodash \<^verbatim>\<open>toString\<close>: \<^verbatim>\<open>undefined\<close> and \<^verbatim>\<open>null\<close> give the empty string. The rendering
  of numbers and of collections is not modelled.
\<close>

fun toString :: "jsval \<Rightarrow> string option" where
  "toString JUndefined = Some []"
| "toString JNull = Some []"
| "toString (JStr s) = Some s"
| "toString (JBool b) = Some (if b then ''true'' else ''false'')"
| "toString (JNum n) = None"
| "toString (JList xs) = None"
| "toString (JMap kvs) = None"

text \<open>\<^verbatim>\<open>trimStart(value, chars)\<close>: the string of \<open>value\<close> without its leading characters from \<open>chars\<close>.\<close>

definition trimStart :: "jsval \<Rightarrow> string \<Rightarrow> string option" where
  "trimStart v chars = map_option (dropWhile (\<lambda>c. c \<in> set chars)) (toString v)"

definition omit :: "(string \<times> jsval) list \<Rightarrow> string \<Rightarrow> (string \<times> jsval) list" where
  "omit obj k = filter (\<lambda>kv. fst kv \<noteq> k) obj"

definition cloneDeep :: "(string \<times> jsval) list \<Rightarrow> (string \<times> jsval) list" where
  "cloneDeep obj = obj"

text \<open>
  \<^verbatim>\<open>String.prototype.toUpperCase\<close> on ASCII strings; the case mapping of other
  characters is not modelled.
\<close>

definition upper_char :: "char \<Rightarrow> char" where
  "upper_char c =
     (case map_of (zip ''abcdefghijklmnopqrstuvwxyz'' ''ABCDEFGHIJKLMNOPQRSTUVWXYZ'') c of
        None \<Rightarrow> c
      | Some u \<Rightarrow> u)"

definition toUpperCase :: "string \<Rightarrow> string option" where
  "toUpperCase s = (if list_all (\<lambda>c. \<not> digit7 c) s then Some (map upper_char s) else None)"

text \<open>\<^verbatim>\<open>haystack.indexOf(needle) !== -1\<close>.\<close>

fun contains_str :: "string \<Rightarrow> string \<Rightarrow> bool" where
  "contains_str [] needle = (needle = [])"
| "contains_str (c # cs) needle =
     (take (length needle) (c # cs) = needle \<or> contains_str cs needle)"

text \<open>
  Strict equality \<^verbatim>\<open>a === b\<close> where \<open>a\<close> is freshly built: an object or an array is
  equal only to itself.
\<close>

fun strict_eq :: "jsval \<Rightarrow> jsval \<Rightarrow> bool" where
  "strict_eq (JList xs) b = False"
| "strict_eq (JMap kvs) b = False"
| "strict_eq a b = (a = b)"

text \<open>The names that every plain object inherits from \<^verbatim>\<open>Object.prototype\<close>.\<close>

definition object_prototype_props :: "string list" where
  "object_prototype_props =
     [''constructor'', ''__defineGetter__'', ''__defineSetter__'', ''hasOwnProperty'',
      ''__lookupGetter__'', ''__lookupSetter__'', ''isPrototypeOf'', ''propertyIsEnumerable'',
      ''toString'', ''valueOf'', ''__proto__'', ''toLocaleString'']"

section \<open>The environment of the configuration actions\<close>

text \<open>
  What \<^verbatim>\<open>config.js\<close> imports and does not define: the \<^verbatim>\<open>SIMPLE\<close> publish mode, the
  schema validator (it throws or returns), \<^verbatim>\<open>selectIdentifier\<close> of the collections
  reducer, the YAML parser \<^verbatim>\<open>yaml.safeLoad\<close>, and the authentication thunk (which may
  throw while it is dispatched, given the published configuration).
\<close>

record deps =
  publish_SIMPLE :: jsval
  validateConfig :: "jsval \<Rightarrow> error option"
  selectIdentifier :: "jsval \<Rightarrow> jsval result"
  safeLoad :: "string \<Rightarrow> jsval result"
  authenticateUser :: "jsval \<Rightarrow> error option"

record link_el =
  link_type :: string
  href :: string

record response =
  status :: int
  content_type :: "string option"
  text_body :: "error + string"

datatype fetch_result = FetchRejected string | FetchResponse response

text \<open>
  The world a load runs in: \<^verbatim>\<open>window.CMS_CONFIG\<close>, the build-time \<^verbatim>\<open>CMS_ENV\<close> (\<open>None\<close>
  when it is no string), the \<^verbatim>\<open>cms-config-url\<close> link element of the document, the
  \<^verbatim>\<open>config\<close> slice of the store (an Immutable map, or \<^verbatim>\<open>undefined\<close>), and the network.
\<close>

record world =
  CMS_CONFIG :: jsval
  CMS_ENV :: "string option"
  config_link :: "link_el option"
  store_config :: "(string \<times> jsval) list option"
  fetch :: "string \<Rightarrow> fetch_result"

datatype action =
    CONFIG_REQUEST
  | CONFIG_SUCCESS jsval
  | CONFIG_FAILURE error
  | CONFIG_MERGE jsval
  | AUTHENTICATE_USER

datatype event = Dispatched action | Fetched string

datatype outcome = Resolved | Rejected error

datatype run = Run "event list" outcome | UnmodelledRun

section \<open>The configuration actions\<close>

subsection \<open>getConfigUrl\<close>

text \<open>
  \<^verbatim>\<open>validTypes[configLinkEl.type]\<close> is truthy for the two YAML media types, and for a
  name inherited from \<^verbatim>\<open>Object.prototype\<close>.
\<close>

definition validTypes :: "string \<Rightarrow> bool" where
  "validTypes t =
     (t = ''text/yaml'' \<or> t = ''application/x-yaml'' \<or> t \<in> set object_prototype_props)"

definition getConfigUrl :: "link_el option \<Rightarrow> string" where
  "getConfigUrl configLinkEl =
     (case configLinkEl of
        None \<Rightarrow> ''config.yml''
      | Some el \<Rightarrow>
          if validTypes (link_type el) \<and> href el \<noteq> [] then href el else ''config.yml'')"

subsection \<open>addLanguageFields\<close>

text \<open>\<^verbatim>\<open>item.name\<close> and \<^verbatim>\<open>item.translate\<close>: only an object can carry these two properties.\<close>

fun item_prop :: "jsval \<Rightarrow> string \<Rightarrow> jsval result" where
  "item_prop JUndefined k = Throw TypeError"
| "item_prop JNull k = Throw TypeError"
| "item_prop (JMap kvs) k = Ok (map_get kvs k)"
| "item_prop v k = Ok JUndefined"

text \<open>The callback of \<^verbatim>\<open>langs.map\<close>: one copy of the field for the language \<open>lang\<close>.\<close>

fun langField :: "(string \<times> jsval) list \<Rightarrow> jsval \<Rightarrow> jsval result" where
  "langField item (JStr lang) =
     and_then (of_option (toUpperCase lang)) (\<lambda>up.
       Ok (JMap (map_set (map_set (omit (cloneDeep item) ''translate'') ''label'' (JStr up))
                   ''name'' (JStr lang))))"
| "langField item lang = Throw TypeError"

text \<open>\<^verbatim>\<open>langs.map(...)\<close> on a plain value: only an array has the method.\<close>

fun langFields :: "(string \<times> jsval) list \<Rightarrow> jsval \<Rightarrow> jsval list result" where
  "langFields item (JList ls) = map_result (langField item) ls"
| "langFields item langs = Throw TypeError"

text \<open>The body of the \<^verbatim>\<open>reduce\<close> callback: the element that is appended for \<open>item\<close>.\<close>

definition expandField :: "jsval \<Rightarrow> jsval \<Rightarrow> jsval \<Rightarrow> jsval result" where
  "expandField langs identifier item =
     and_then (item_prop item ''name'') (\<lambda>name.
     and_then (item_prop item ''translate'') (\<lambda>translate.
       if truthy translate \<and> \<not> strict_eq name identifier \<and> \<not> strict_eq name (JStr ''body'')
       then (case item of
               JMap kvs \<Rightarrow>
                 and_then (langFields kvs langs) (\<lambda>lfs.
                   Ok (JMap (map_set (map_set (omit kvs ''translate'') ''widget'' (JStr ''object''))
                               ''fields'' (JList lfs))))
             | _ \<Rightarrow> Ok item)
       else Ok item))"

fun reduce_fields :: "jsval \<Rightarrow> jsval \<Rightarrow> jsval list \<Rightarrow> jsval list \<Rightarrow> jsval list result" where
  "reduce_fields langs identifier acc [] = Ok acc"
| "reduce_fields langs identifier acc (item # items) =
     and_then (expandField langs identifier item) (\<lambda>x.
       reduce_fields langs identifier (acc @ [x]) items)"

fun addLanguageFields :: "jsval \<Rightarrow> jsval \<Rightarrow> jsval \<Rightarrow> jsval result" where
  "addLanguageFields (JList flds) langs identifier =
     and_then (reduce_fields langs identifier [] flds) (\<lambda>acc. Ok (JList acc))"
| "addLanguageFields flds langs identifier = Throw TypeError"

subsection \<open>applyDefaults\<close>

text \<open>The callback of \<^verbatim>\<open>files.map\<close>.\<close>

fun defaultFile :: "jsval \<Rightarrow> jsval result" where
  "defaultFile (JMap file) =
     and_then (of_option (trimStart (map_get file ''file'') ''/'')) (\<lambda>p.
       Ok (JMap (map_set file ''file'' (JStr p))))"
| "defaultFile (JList xs) = Ok (JList xs)"
| "defaultFile file = Throw TypeError"

text \<open>The callback of \<^verbatim>\<open>map.get('collections').map\<close>, for the languages \<open>langs\<close>.\<close>

fun defaultCollection :: "deps \<Rightarrow> jsval \<Rightarrow> jsval \<Rightarrow> jsval result" where
  "defaultCollection d langs (JMap c) =
     (let folder = map_get c ''folder'' in
      if truthy folder then
        (let c1 = (if map_has c ''path'' \<and> \<not> map_has c ''media_folder''
                   then map_set c ''media_folder'' (JStr [])
                   else c);
             flds = map_get c1 ''fields''
         in and_then
              (if truthy langs \<and> truthy flds then
                 and_then (toJS_call flds) (\<lambda>fjs.
                 and_then (toJS_call langs) (\<lambda>ljs.
                 and_then (selectIdentifier d (JMap c1)) (\<lambda>identifier.
                 and_then (addLanguageFields fjs ljs identifier) (\<lambda>r.
                   Ok (map_set c1 ''fields'' (fromJS r))))))
               else Ok c1)
              (\<lambda>c2. and_then (of_option (trimStart folder ''/'')) (\<lambda>f.
                 Ok (JMap (map_set c2 ''folder'' (JStr f))))))
      else
        (let files = map_get c ''files'' in
         if truthy files then
           and_then (coll_map defaultFile files) (\<lambda>fs. Ok (JMap (map_set c ''files'' fs)))
         else Ok JUndefined))"
| "defaultCollection d langs (JList xs) = Ok JUndefined"
| "defaultCollection d langs collection = Throw TypeError"

definition default_display_url :: "(string \<times> jsval) list \<Rightarrow> (string \<times> jsval) list" where
  "default_display_url m =
     (if \<not> truthy (map_get m ''display_url'') \<and> truthy (map_get m ''site_url'')
      then map_set m ''display_url'' (map_get m ''site_url'')
      else m)"

definition default_public_folder :: "(string \<times> jsval) list \<Rightarrow> (string \<times> jsval) list result" where
  "default_public_folder m =
     (if \<not> truthy (map_get m ''public_folder'')
      then and_then (of_option (trimStart (map_get m ''media_folder'') ''/'')) (\<lambda>t.
             Ok (map_set m ''public_folder'' (JStr (''/'' @ t))))
      else Ok m)"

definition default_slug ::
  "(string \<times> jsval) list \<Rightarrow> string \<Rightarrow> jsval \<Rightarrow> (string \<times> jsval) list result" where
  "default_slug m k v = (if \<not> truthy (getIn_slug m k) then setIn_slug m k v else Ok m)"

definition default_collections :: "deps \<Rightarrow> (string \<times> jsval) list \<Rightarrow> jsval result" where
  "default_collections d m =
     (let langs = map_get m ''languages'' in
      and_then (coll_map (defaultCollection d langs) (map_get m ''collections'')) (\<lambda>cs.
        Ok (JMap (map_set m ''collections'' cs))))"

definition applyDefaults :: "deps \<Rightarrow> jsval \<Rightarrow> jsval result" where
  "applyDefaults d config =
     and_then (map_mergeDeep [(''publish_mode'', publish_SIMPLE d)] config) (\<lambda>m0.
     and_then (default_public_folder (default_display_url m0)) (\<lambda>m2.
     and_then (default_slug m2 ''encoding'' (JStr ''unicode'')) (\<lambda>m3.
     and_then (default_slug m3 ''clean_accents'' (JBool False)) (\<lambda>m4.
     and_then (default_slug m4 ''sanitize_replacement'' (JStr ''-'')) (\<lambda>m5.
       default_collections d m5)))))"

subsection \<open>mergePreloadedConfig, parseConfig, getConfig\<close>

definition mergePreloadedConfig :: "(string \<times> jsval) list option \<Rightarrow> jsval \<Rightarrow> jsval result" where
  "mergePreloadedConfig preloadedConfig loadedConfig =
     (let m = (if truthy (fromJS loadedConfig) then fromJS loadedConfig else JMap []) in
      case preloadedConfig of
        Some p \<Rightarrow> and_then (map_mergeDeep p m) (\<lambda>r. Ok (JMap r))
      | None \<Rightarrow> Ok m)"

text \<open>
  \<^verbatim>\<open>Object.keys\<close> of the truthy value under the environment key. The index keys of a
  non-empty array or string are not modelled.
\<close>

fun object_keys :: "jsval \<Rightarrow> string list option" where
  "object_keys (JMap kvs) = Some (map fst kvs)"
| "object_keys (JList xs) = (if xs = [] then Some [] else None)"
| "object_keys (JStr s) = (if s = [] then Some [] else None)"
| "object_keys v = Some []"

text \<open>
  The \<^verbatim>\<open>forEach\<close> of \<^verbatim>\<open>parseConfig\<close>: \<^verbatim>\<open>config[key] = config[CMS_ENV][key]\<close> for each key in
  turn, on the object as the earlier assignments left it.
\<close>

fun hoist :: "string \<Rightarrow> (string \<times> jsval) list \<Rightarrow> string list \<Rightarrow> (string \<times> jsval) list result" where
  "hoist env config [] = Ok config"
| "hoist env config (key # keys) =
     (if key = ''__proto__'' then Unmodelled
      else
        (case map_get config env of
           JMap overlay \<Rightarrow>
             (case map_of overlay key of
                Some v \<Rightarrow> hoist env (map_set config key v) keys
              | None \<Rightarrow>
                  if key \<in> set object_prototype_props then Unmodelled
                  else hoist env (map_set config key JUndefined) keys)
         | JUndefined \<Rightarrow> Throw TypeError
         | JNull \<Rightarrow> Throw TypeError
         | _ \<Rightarrow> Unmodelled))"

definition parseConfig :: "deps \<Rightarrow> string option \<Rightarrow> string \<Rightarrow> jsval result" where
  "parseConfig d cms_env data =
     and_then (safeLoad d data) (\<lambda>config.
       case cms_env of
         None \<Rightarrow> Ok config
       | Some env \<Rightarrow>
           (case config of
              JUndefined \<Rightarrow> Throw TypeError
            | JNull \<Rightarrow> Throw TypeError
            | JMap kvs \<Rightarrow>
                (case map_of kvs env of
                   None \<Rightarrow> if env \<in> set object_prototype_props then Unmodelled else Ok config
                 | Some overlay \<Rightarrow>
                     if truthy overlay then
                       and_then (of_option (object_keys overlay)) (\<lambda>keys.
                       and_then (hoist env kvs keys) (\<lambda>c. Ok (JMap c)))
                     else Ok config)
            | _ \<Rightarrow> Unmodelled))"

definition getConfig ::
  "deps \<Rightarrow> world \<Rightarrow> string \<Rightarrow> bool \<Rightarrow> event list \<times> jsval result" where
  "getConfig d w file isPreloaded =
     ([Fetched file],
      case fetch w file of
        FetchRejected err \<Rightarrow>
          if isPreloaded then parseConfig d (CMS_ENV w) []
          else Throw (LoadError (Failure err))
      | FetchResponse r \<Rightarrow>
          if status r \<noteq> 200 then
            (if isPreloaded then parseConfig d (CMS_ENV w) []
             else Throw (LoadError (if status r \<noteq> 0 then Status (status r) else ResponseObject)))
          else
            (let contentType =
                   (case content_type r of
                      None \<Rightarrow> ''Not-Found''
                    | Some t \<Rightarrow> if t \<noteq> [] then t else ''Not-Found'');
                 isYaml = contains_str contentType ''yaml''
             in if \<not> isYaml \<and> isPreloaded then parseConfig d (CMS_ENV w) []
                else (case text_body r of
                        Inl e \<Rightarrow> Throw e
                      | Inr body \<Rightarrow> parseConfig d (CMS_ENV w) body)))"

subsection \<open>loadConfig\<close>

definition configLoaded :: "jsval \<Rightarrow> action" where
  "configLoaded config = CONFIG_SUCCESS config"

definition configLoading :: action where
  "configLoading = CONFIG_REQUEST"

definition configFailed :: "error \<Rightarrow> action" where
  "configFailed err = CONFIG_FAILURE err"

definition configDidLoad :: "jsval \<Rightarrow> event list" where
  "configDidLoad config = [Dispatched (configLoaded config)]"

definition mergeConfig :: "jsval \<Rightarrow> action" where
  "mergeConfig config = CONFIG_MERGE config"

text \<open>
  The value of \<^verbatim>\<open>loadedConfig\<close>: the empty object, without a fetch, when the preloaded
  configuration has \<^verbatim>\<open>load_config_file === false\<close>; otherwise what \<^verbatim>\<open>getConfig\<close> gives.
\<close>

definition loaded_document :: "deps \<Rightarrow> world \<Rightarrow> event list \<times> jsval result" where
  "loaded_document d w =
     (case store_config w of
        None \<Rightarrow> getConfig d w (getConfigUrl (config_link w)) False
      | Some p \<Rightarrow>
          if map_get p ''load_config_file'' = JBool False then ([], Ok (JMap []))
          else getConfig d w (getConfigUrl (config_link w)) (map_size p > 1))"

text \<open>
  The \<^verbatim>\<open>try\<close> block up to and including \<^verbatim>\<open>applyDefaults\<close>: the events so far, and the
  configuration to publish or the error thrown.
\<close>

definition load_steps :: "deps \<Rightarrow> world \<Rightarrow> event list \<times> jsval result" where
  "load_steps d w =
     (let preloadedConfig = store_config w;
          (evs, loaded) = loaded_document d w
      in (evs,
          and_then loaded (\<lambda>loadedConfig.
          and_then (mergePreloadedConfig preloadedConfig loadedConfig) (\<lambda>mergedConfig.
          and_then (toJS_call mergedConfig) (\<lambda>js.
            case validateConfig d js of
              Some e \<Rightarrow> Throw e
            | None \<Rightarrow> applyDefaults d mergedConfig)))))"

definition loadConfig :: "deps \<Rightarrow> world \<Rightarrow> run" where
  "loadConfig d w =
     (if truthy (CMS_CONFIG w) then Run (configDidLoad (fromJS (CMS_CONFIG w))) Resolved
      else
        (case load_steps d w of
           (evs, Unmodelled) \<Rightarrow> UnmodelledRun
         | (evs, Throw err) \<Rightarrow>
             Run (Dispatched configLoading # evs @ [Dispatched (configFailed err)]) (Rejected err)
         | (evs, Ok config) \<Rightarrow>
             (case authenticateUser d config of
                None \<Rightarrow>
                  Run (Dispatched configLoading # evs @ configDidLoad config
                         @ [Dispatched AUTHENTICATE_USER]) Resolved
              | Some err \<Rightarrow>
                  Run (Dispatched configLoading # evs @ configDidLoad config
                         @ [Dispatched AUTHENTICATE_USER, Dispatched (configFailed err)])
                    (Rejected err))))"

section \<open>Notions used to state the properties\<close>

text \<open>A path into a document, and the value found there.\<close>

datatype step = Key string | Index nat



text \<open>The configurations published by a run, and the errors it reported, in order.\<close>

fun published :: "event list \<Rightarrow> jsval list" where
  "published [] = []"
| "published (Dispatched (CONFIG_SUCCESS c) # evs) = c # published evs"
| "published (e # evs) = published evs"


fun fetches :: "event list \<Rightarrow> string list" where
  "fetches [] = []"
| "fetches (Fetched url # evs) = url # fetches evs"
| "fetches (e # evs) = fetches evs"

text \<open>
  A fetch has failed when it was rejected or answered with a status other than 200; the
  cause is what the message of the load error shows.
\<close>

definition fetch_failed :: "fetch_result \<Rightarrow> load_cause option" where
  "fetch_failed r =
     (case r of
        FetchRejected err \<Rightarrow> Some (Failure err)
      | FetchResponse resp \<Rightarrow>
          if status resp = 200 then None
          else Some (if status resp \<noteq> 0 then Status (status resp) else ResponseObject))"

section \<open>A sample environment\<close>

text \<open>
  Concrete collaborators for the instances below: a validator that asks for a
  \<^verbatim>\<open>backend\<close> key, an identifier field \<^verbatim>\<open>slug\<close>, a parser that knows the empty
  document (\<^verbatim>\<open>yaml.safeLoad('')\<close> is \<^verbatim>\<open>undefined\<close>), and a network that answers 404.
\<close>

definition requires_backend :: "jsval \<Rightarrow> error option" where
  "requires_backend js =
     (case js of
        JMap kvs \<Rightarrow>
          if map_has kvs ''backend'' then None
          else Some (External ''config should have required property backend'')
      | _ \<Rightarrow> Some (External ''config should be object''))"

definition sample_deps :: deps where
  "sample_deps =
     \<lparr>publish_SIMPLE = JStr ''simple'',
      validateConfig = requires_backend,
      selectIdentifier = (\<lambda>c. Ok (JStr ''slug'')),
      safeLoad = (\<lambda>s. if s = [] then Ok JUndefined else Throw (External ''YAMLException'')),
      authenticateUser = (\<lambda>c. None)\<rparr>"

definition not_found :: fetch_result where
  "not_found = FetchResponse \<lparr>status = 404, content_type = None, text_body = Inr []\<rparr>"

definition sample_world :: world where
  "sample_world =
     \<lparr>CMS_CONFIG = JUndefined,
      CMS_ENV = None,
      config_link = None,
      store_config = None,
      fetch = (\<lambda>url. not_found)\<rparr>"

section \<open>Basic facts\<close>

lemma and_then_Ok: "and_then r f = Ok y \<Longrightarrow> \<exists>x. r = Ok x \<and> f x = Ok y"
  by (cases r) auto

lemma of_option_Ok: "of_option x = Ok y \<longleftrightarrow> x = Some y"
  by (cases x) auto

lemma map_result_nth:
  "map_result f xs = Ok ys \<Longrightarrow>
   length ys = length xs \<and> (\<forall>i<length xs. f (xs ! i) = Ok (ys ! i))"
proof (induction xs arbitrary: ys)
  case Nil
  then show ?case by simp
next
  case (Cons x xs)
  from Cons.prems obtain y ys' where y: "f x = Ok y" and r: "map_result f xs = Ok ys'"
    and ys: "ys = y # ys'"
    by (auto dest!: and_then_Ok)
  from Cons.IH[OF r] y ys show ?case
    by (auto simp: nth_Cons split: nat.splits)
qed

lemma map_get_set: "map_get (map_set m k v) k' = (if k' = k then v else map_get m k')"
  by (simp add: map_get_def map_set_def update_conv')

lemma map_of_set: "map_of (map_set m k v) k' = (if k' = k then Some v else map_of m k')"
  by (simp add: map_set_def update_conv')




lemma fetches_append: "fetches (xs @ ys) = fetches xs @ fetches ys"
  by (induction xs rule: fetches.induct) auto

lemma map_get_Nil: "map_get [] k = JUndefined"
  by (simp add: map_get_def)

lemma map_of_omit: "map_of (omit obj k) k' = (if k' = k then None else map_of obj k')"
  by (induction obj) (auto simp: omit_def)

lemma map_has_set: "map_has (map_set m k v) k' = (k' = k \<or> map_has m k')"
  by (simp add: map_has_def map_of_set)

text \<open>The definitions to unfold when a concrete configuration is evaluated.\<close>

lemmas applyDefaults_eval =
  applyDefaults_def default_public_folder_def default_display_url_def default_slug_def
  default_collections_def map_get_def map_set_def map_has_def getIn_slug_def setIn_slug_def
  trimStart_def toJS_def fromJS_def expandField_def omit_def cloneDeep_def toUpperCase_def
  upper_char_def sample_deps_def

section \<open>Deep merge\<close>

lemma mergeMap_lookup:
  "mergeMap a b = Some m \<Longrightarrow> distinct (map fst b) \<Longrightarrow>
   map_of m k = (case map_of b k of None \<Rightarrow> map_of a k
                 | Some v \<Rightarrow> (case map_of a k of None \<Rightarrow> Some v | Some e \<Rightarrow> deepMerger e v))"
proof (induction b arbitrary: a)
  case Nil
  then show ?case by simp
next
  case (Cons kv b)
  obtain k' v where kv: "kv = (k', v)" by (cases kv)
  from Cons.prems(2) kv have nk: "map_of b k' = None" and d: "distinct (map fst b)"
    by (auto simp: map_of_eq_None_iff)
  show ?case
  proof (cases "map_of a k'")
    case None
    with Cons.prems(1) kv have "mergeMap (a @ [(k', v)]) b = Some m" by simp
    from Cons.IH[OF this d] None nk show ?thesis
      by (auto simp: kv map_add_def split: option.splits)
  next
    case (Some e)
    with Cons.prems(1) kv obtain mm where mm: "deepMerger e v = Some mm"
      and r: "mergeMap (AList.update k' mm a) b = Some m"
      by (auto split: option.splits)
    from Cons.IH[OF r d] Some nk mm show ?thesis
      by (auto simp: kv update_conv' split: option.splits)
  qed
qed




section \<open>Merging the preloaded and the loaded configuration\<close>



section \<open>applyDefaults\<close>

lemma merge_defaults_frame:
  assumes "mergeMap [(''publish_mode'', s)] cfg = Some m0"
    and "distinct (map fst cfg)"
    and "k \<noteq> ''publish_mode''"
  shows "map_of m0 k = map_of cfg k"
  using mergeMap_lookup[OF assms(1,2), of k] assms(3)
  by (auto split: option.splits)

lemma default_display_url_frame:
  "k \<noteq> ''display_url'' \<Longrightarrow> map_of (default_display_url m) k = map_of m k"
  by (simp add: default_display_url_def map_of_set)

lemma default_public_folder_frame:
  "default_public_folder m = Ok m' \<Longrightarrow> k \<noteq> ''public_folder'' \<Longrightarrow> map_of m' k = map_of m k"
  by (auto simp: default_public_folder_def map_of_set split: if_splits dest!: and_then_Ok)

lemma default_slug_frame:
  "default_slug m sk v = Ok m' \<Longrightarrow> k \<noteq> ''slug'' \<Longrightarrow> map_of m' k = map_of m k"
  by (auto simp: default_slug_def setIn_slug_def map_of_set
      split: if_splits option.splits jsval.splits)

lemma default_collections_frame:
  "default_collections d m = Ok out \<Longrightarrow>
   \<exists>m' cs. out = JMap m' \<and> map_of m' ''collections'' = Some cs
      \<and> coll_map (defaultCollection d (map_get m ''languages'')) (map_get m ''collections'') = Ok cs
      \<and> (\<forall>k. k \<noteq> ''collections'' \<longrightarrow> map_of m' k = map_of m k)"
  by (auto simp: default_collections_def Let_def map_of_set dest!: and_then_Ok)

text \<open>The stages of \<^verbatim>\<open>applyDefaults\<close> on a configuration that is a map.\<close>

lemma applyDefaults_stages:
  assumes "applyDefaults d (JMap cfg) = Ok out"
  shows "\<exists>m0 m2 m3 m4 m5.
      mergeMap [(''publish_mode'', publish_SIMPLE d)] cfg = Some m0
    \<and> default_public_folder (default_display_url m0) = Ok m2
    \<and> default_slug m2 ''encoding'' (JStr ''unicode'') = Ok m3
    \<and> default_slug m3 ''clean_accents'' (JBool False) = Ok m4
    \<and> default_slug m4 ''sanitize_replacement'' (JStr ''-'') = Ok m5
    \<and> default_collections d m5 = Ok out"
proof -
  from assms obtain m0 where m0: "of_option (mergeMap [(''publish_mode'', publish_SIMPLE d)] cfg) = Ok m0"
    and r0: "and_then (default_public_folder (default_display_url m0)) (\<lambda>m2.
     and_then (default_slug m2 ''encoding'' (JStr ''unicode'')) (\<lambda>m3.
     and_then (default_slug m3 ''clean_accents'' (JBool False)) (\<lambda>m4.
     and_then (default_slug m4 ''sanitize_replacement'' (JStr ''-'')) (\<lambda>m5.
       default_collections d m5)))) = Ok out"
    unfolding applyDefaults_def by (auto dest!: and_then_Ok)
  from r0 obtain m2 where m2: "default_public_folder (default_display_url m0) = Ok m2"
    and r2: "and_then (default_slug m2 ''encoding'' (JStr ''unicode'')) (\<lambda>m3.
     and_then (default_slug m3 ''clean_accents'' (JBool False)) (\<lambda>m4.
     and_then (default_slug m4 ''sanitize_replacement'' (JStr ''-'')) (\<lambda>m5.
       default_collections d m5))) = Ok out"
    by (auto dest!: and_then_Ok)
  from r2 obtain m3 where m3: "default_slug m2 ''encoding'' (JStr ''unicode'') = Ok m3"
    and r3: "and_then (default_slug m3 ''clean_accents'' (JBool False)) (\<lambda>m4.
     and_then (default_slug m4 ''sanitize_replacement'' (JStr ''-'')) (\<lambda>m5.
       default_collections d m5)) = Ok out"
    by (auto dest!: and_then_Ok)
  from r3 obtain m4 where m4: "default_slug m3 ''clean_accents'' (JBool False) = Ok m4"
    and r4: "and_then (default_slug m4 ''sanitize_replacement'' (JStr ''-'')) (\<lambda>m5.
       default_collections d m5) = Ok out"
    by (auto dest!: and_then_Ok)
  from r4 obtain m5 where m5: "default_slug m4 ''sanitize_replacement'' (JStr ''-'') = Ok m5"
    and r5: "default_collections d m5 = Ok out"
    by (auto dest!: and_then_Ok)
  from m0 have "mergeMap [(''publish_mode'', publish_SIMPLE d)] cfg = Some m0"
    by (simp add: of_option_Ok)
  with m2 m3 m4 m5 r5 show ?thesis by blast
qed

lemma applyDefaults_public_folder:
  assumes "applyDefaults d (JMap cfg) = Ok (JMap out)"
    and "distinct (map fst cfg)"
  shows "\<exists>m1 m2. default_public_folder m1 = Ok m2
     \<and> map_get m1 ''public_folder'' = map_get cfg ''public_folder''
     \<and> map_get m1 ''media_folder'' = map_get cfg ''media_folder''
     \<and> map_get out ''public_folder'' = map_get m2 ''public_folder''"
proof -
  from applyDefaults_stages[OF assms(1)] obtain m0 m2 m3 m4 m5 where
    s: "mergeMap [(''publish_mode'', publish_SIMPLE d)] cfg = Some m0"
      "default_public_folder (default_display_url m0) = Ok m2"
      "default_slug m2 ''encoding'' (JStr ''unicode'') = Ok m3"
      "default_slug m3 ''clean_accents'' (JBool False) = Ok m4"
      "default_slug m4 ''sanitize_replacement'' (JStr ''-'') = Ok m5"
      "default_collections d m5 = Ok (JMap out)"
    by blast
  have in1: "map_of (default_display_url m0) k = map_of cfg k"
    if "k \<noteq> ''publish_mode''" "k \<noteq> ''display_url''" for k
    using default_display_url_frame[OF that(2), of m0] merge_defaults_frame[OF s(1) assms(2) that(1)]
    by simp
  from default_collections_frame[OF s(6)]
  have "map_of out ''public_folder'' = map_of m5 ''public_folder''" by auto
  also have "\<dots> = map_of m4 ''public_folder''" by (rule default_slug_frame[OF s(5)]) simp
  also have "\<dots> = map_of m3 ''public_folder''" by (rule default_slug_frame[OF s(4)]) simp
  also have "\<dots> = map_of m2 ''public_folder''" by (rule default_slug_frame[OF s(3)]) simp
  finally have o: "map_get out ''public_folder'' = map_get m2 ''public_folder''"
    by (simp add: map_get_def)
  have "map_get (default_display_url m0) ''public_folder'' = map_get cfg ''public_folder''"
    "map_get (default_display_url m0) ''media_folder'' = map_get cfg ''media_folder''"
    using in1[of "''public_folder''"] in1[of "''media_folder''"] by (simp_all add: map_get_def)
  with s(2) o show ?thesis by blast
qed

text \<open>
  C6, as amended. When \<^verbatim>\<open>public_folder\<close> is absent or falsy (\<^verbatim>\<open>undefined\<close>, \<^verbatim>\<open>null\<close>,
  \<^verbatim>\<open>false\<close>, \<^verbatim>\<open>0\<close>, the empty string), \<^verbatim>\<open>applyDefaults\<close> sets it to \<^verbatim>\<open>/\<close> followed by
  \<^verbatim>\<open>media_folder\<close> without its leading slashes, so \<^verbatim>\<open>uploads\<close> gives \<^verbatim>\<open>/uploads\<close>; a truthy
  \<^verbatim>\<open>public_folder\<close> is kept.
\<close>

theorem C6_public_folder_default:
  assumes "applyDefaults d (JMap cfg) = Ok (JMap out)"
    and "distinct (map fst cfg)"
  shows "(\<not> truthy (map_get cfg ''public_folder'') \<longrightarrow>
            (\<exists>t. trimStart (map_get cfg ''media_folder'') ''/'' = Some t
               \<and> map_get out ''public_folder'' = JStr (''/'' @ t)))
       \<and> (\<forall>s. \<not> truthy (map_get cfg ''public_folder'') \<and> map_get cfg ''media_folder'' = JStr s \<longrightarrow>
            map_get out ''public_folder'' = JStr (''/'' @ dropWhile (\<lambda>c. c = CHR ''/'') s))
       \<and> (truthy (map_get cfg ''public_folder'') \<longrightarrow>
            map_get out ''public_folder'' = map_get cfg ''public_folder'')"
proof -
  from applyDefaults_public_folder[OF assms] obtain m1 m2 where
    pf: "default_public_folder m1 = Ok m2"
    and i1: "map_get m1 ''public_folder'' = map_get cfg ''public_folder''"
    and i2: "map_get m1 ''media_folder'' = map_get cfg ''media_folder''"
    and o: "map_get out ''public_folder'' = map_get m2 ''public_folder''"
    by blast
  have a: "\<exists>t. trimStart (map_get cfg ''media_folder'') ''/'' = Some t
               \<and> map_get out ''public_folder'' = JStr (''/'' @ t)"
    if "\<not> truthy (map_get cfg ''public_folder'')"
    using pf that i1 i2 o
    by (auto simp: default_public_folder_def map_get_set of_option_Ok dest!: and_then_Ok)
  have b: "map_get out ''public_folder'' = JStr (''/'' @ dropWhile (\<lambda>c. c = CHR ''/'') s)"
    if "\<not> truthy (map_get cfg ''public_folder'')" "map_get cfg ''media_folder'' = JStr s" for s
    using a[OF that(1)] that(2) by (auto simp: trimStart_def)
  have c: "map_get out ''public_folder'' = map_get cfg ''public_folder''"
    if "truthy (map_get cfg ''public_folder'')"
    using pf that i1 o by (simp add: default_public_folder_def)
  from a b c show ?thesis by blast
qed

theorem C6_public_folder_default_witness:
  "applyDefaults sample_deps (JMap [(''media_folder'', JStr ''uploads''), (''collections'', JList [])])
     = Ok (JMap [(''publish_mode'', JStr ''simple''), (''media_folder'', JStr ''uploads''),
                 (''collections'', JList []), (''public_folder'', JStr ''/uploads''),
                 (''slug'', JMap [(''encoding'', JStr ''unicode''), (''clean_accents'', JBool False),
                                  (''sanitize_replacement'', JStr ''-'')])])
   \<and> distinct (map fst [(''media_folder'', JStr ''uploads''), (''collections'', JList [])])
   \<and> \<not> truthy (map_get [(''media_folder'', JStr ''uploads''), (''collections'', JList [])] ''public_folder'')
   \<and> map_get [(''publish_mode'', JStr ''simple''), (''media_folder'', JStr ''uploads''),
                 (''collections'', JList []), (''public_folder'', JStr ''/uploads''),
                 (''slug'', JMap [(''encoding'', JStr ''unicode''), (''clean_accents'', JBool False),
                                  (''sanitize_replacement'', JStr ''-'')])] ''public_folder''
       = JStr ''/uploads''"
proof -
  have h1: "applyDefaults sample_deps (JMap [(''media_folder'', JStr ''uploads''), (''collections'', JList [])])
     = Ok (JMap [(''publish_mode'', JStr ''simple''), (''media_folder'', JStr ''uploads''),
                 (''collections'', JList []), (''public_folder'', JStr ''/uploads''),
                 (''slug'', JMap [(''encoding'', JStr ''unicode''), (''clean_accents'', JBool False),
                                  (''sanitize_replacement'', JStr ''-'')])])"
    by (simp add: applyDefaults_eval)
  have h2: "distinct (map fst [(''media_folder'', JStr ''uploads''), (''collections'', JList [])])"
    by simp
  show ?thesis using h1 h2 C6_public_folder_default[OF h1 h2] by (simp add: map_get_def)
qed

text \<open>
  The claim as stated fails: an existing \<^verbatim>\<open>public_folder\<close> that is the empty string is
  overwritten.
\<close>

theorem C6_counterexample:
  "applyDefaults sample_deps
     (JMap [(''media_folder'', JStr ''uploads''), (''public_folder'', JStr ''''),
            (''collections'', JList [])])
     = Ok (JMap [(''publish_mode'', JStr ''simple''), (''media_folder'', JStr ''uploads''),
                 (''public_folder'', JStr ''/uploads''), (''collections'', JList []),
                 (''slug'', JMap [(''encoding'', JStr ''unicode''), (''clean_accents'', JBool False),
                                  (''sanitize_replacement'', JStr ''-'')])])"
  by (simp add: applyDefaults_eval)

lemma default_slug_step:
  assumes "default_slug m k v = Ok m'"
    and "map_of m ''slug'' = None \<or> (\<exists>s. map_of m ''slug'' = Some (JMap s))"
  shows "(\<exists>s'. map_of m' ''slug'' = Some (JMap s'))
       \<and> getIn_slug m' k' =
           (if k' = k then (if truthy (getIn_slug m k) then getIn_slug m k else v)
            else getIn_slug m k')"
  using assms
  by (auto simp: default_slug_def getIn_slug_def setIn_slug_def map_of_set map_get_set
      map_get_Nil split: if_splits)

lemma getIn_slug_cong: "map_of m ''slug'' = map_of m' ''slug'' \<Longrightarrow> getIn_slug m k = getIn_slug m' k"
  by (simp add: getIn_slug_def)

text \<open>
  C9, as amended. Where \<^verbatim>\<open>slug\<close> is absent or a map, \<^verbatim>\<open>applyDefaults\<close> gives each of the
  sub-keys \<^verbatim>\<open>encoding\<close>, \<^verbatim>\<open>clean_accents\<close> and \<^verbatim>\<open>sanitize_replacement\<close> its default
  (\<^verbatim>\<open>unicode\<close>, \<^verbatim>\<open>false\<close>, \<^verbatim>\<open>-\<close>) when the sub-key is absent or falsy, and keeps a truthy
  value.
\<close>

theorem C9_slug_defaults:
  assumes "applyDefaults d (JMap cfg) = Ok (JMap out)"
    and "distinct (map fst cfg)"
    and "map_of cfg ''slug'' = None \<or> (\<exists>s. map_of cfg ''slug'' = Some (JMap s))"
  shows "getIn_slug out ''encoding'' =
           (if truthy (getIn_slug cfg ''encoding'') then getIn_slug cfg ''encoding''
            else JStr ''unicode'')
       \<and> getIn_slug out ''clean_accents'' =
           (if truthy (getIn_slug cfg ''clean_accents'') then getIn_slug cfg ''clean_accents''
            else JBool False)
       \<and> getIn_slug out ''sanitize_replacement'' =
           (if truthy (getIn_slug cfg ''sanitize_replacement'')
            then getIn_slug cfg ''sanitize_replacement'' else JStr ''-'')"
proof -
  from applyDefaults_stages[OF assms(1)] obtain m0 m2 m3 m4 m5 where
    s: "mergeMap [(''publish_mode'', publish_SIMPLE d)] cfg = Some m0"
      "default_public_folder (default_display_url m0) = Ok m2"
      "default_slug m2 ''encoding'' (JStr ''unicode'') = Ok m3"
      "default_slug m3 ''clean_accents'' (JBool False) = Ok m4"
      "default_slug m4 ''sanitize_replacement'' (JStr ''-'') = Ok m5"
      "default_collections d m5 = Ok (JMap out)"
    by blast
  have "map_of m2 ''slug'' = map_of (default_display_url m0) ''slug''"
    by (rule default_public_folder_frame[OF s(2)]) simp
  also have "\<dots> = map_of m0 ''slug''" by (rule default_display_url_frame) simp
  also have "\<dots> = map_of cfg ''slug''" by (rule merge_defaults_frame[OF s(1) assms(2)]) simp
  finally have m2: "map_of m2 ''slug'' = map_of cfg ''slug''" .
  from default_collections_frame[OF s(6)] have o: "map_of out ''slug'' = map_of m5 ''slug''"
    by auto
  from assms(3) m2 have w2: "map_of m2 ''slug'' = None \<or> (\<exists>s. map_of m2 ''slug'' = Some (JMap s))"
    by simp
  note st3 = default_slug_step[OF s(3) w2]
  from st3 have w3: "map_of m3 ''slug'' = None \<or> (\<exists>s. map_of m3 ''slug'' = Some (JMap s))"
    by blast
  note st4 = default_slug_step[OF s(4) w3]
  from st4 have w4: "map_of m4 ''slug'' = None \<or> (\<exists>s. map_of m4 ''slug'' = Some (JMap s))"
    by blast
  note st5 = default_slug_step[OF s(5) w4]
  have g: "getIn_slug out k = getIn_slug m5 k" "getIn_slug m2 k = getIn_slug cfg k" for k
    using getIn_slug_cong[OF o] getIn_slug_cong[OF m2] by simp_all
  have e: "getIn_slug out ''encoding'' =
           (if truthy (getIn_slug cfg ''encoding'') then getIn_slug cfg ''encoding''
            else JStr ''unicode'')"
    using st3[of "''encoding''"] st4[of "''encoding''"] st5[of "''encoding''"] g by simp
  have c: "getIn_slug out ''clean_accents'' =
           (if truthy (getIn_slug cfg ''clean_accents'') then getIn_slug cfg ''clean_accents''
            else JBool False)"
    using st3[of "''clean_accents''"] st4[of "''clean_accents''"] st5[of "''clean_accents''"] g
    by simp
  have r: "getIn_slug out ''sanitize_replacement'' =
           (if truthy (getIn_slug cfg ''sanitize_replacement'')
            then getIn_slug cfg ''sanitize_replacement'' else JStr ''-'')"
    using st3[of "''sanitize_replacement''"] st4[of "''sanitize_replacement''"]
      st5[of "''sanitize_replacement''"] g
    by simp
  from e c r show ?thesis by blast
qed

theorem C9_slug_defaults_witness:
  "applyDefaults sample_deps
     (JMap [(''slug'', JMap [(''encoding'', JStr ''ascii'')]), (''collections'', JList [])])
     = Ok (JMap [(''publish_mode'', JStr ''simple''),
                 (''slug'', JMap [(''encoding'', JStr ''ascii''), (''clean_accents'', JBool False),
                                  (''sanitize_replacement'', JStr ''-'')]),
                 (''collections'', JList []), (''public_folder'', JStr ''/'')])
   \<and> distinct (map fst [(''slug'', JMap [(''encoding'', JStr ''ascii'')]), (''collections'', JList [])])
   \<and> getIn_slug [(''publish_mode'', JStr ''simple''),
                 (''slug'', JMap [(''encoding'', JStr ''ascii''), (''clean_accents'', JBool False),
                                  (''sanitize_replacement'', JStr ''-'')]),
                 (''collections'', JList []), (''public_folder'', JStr ''/'')] ''encoding''
       = JStr ''ascii''
   \<and> getIn_slug [(''publish_mode'', JStr ''simple''),
                 (''slug'', JMap [(''encoding'', JStr ''ascii''), (''clean_accents'', JBool False),
                                  (''sanitize_replacement'', JStr ''-'')]),
                 (''collections'', JList []), (''public_folder'', JStr ''/'')] ''sanitize_replacement''
       = JStr ''-''"
proof -
  have h1: "applyDefaults sample_deps
     (JMap [(''slug'', JMap [(''encoding'', JStr ''ascii'')]), (''collections'', JList [])])
     = Ok (JMap [(''publish_mode'', JStr ''simple''),
                 (''slug'', JMap [(''encoding'', JStr ''ascii''), (''clean_accents'', JBool False),
                                  (''sanitize_replacement'', JStr ''-'')]),
                 (''collections'', JList []), (''public_folder'', JStr ''/'')])"
    by (simp add: applyDefaults_eval)
  have h2: "distinct (map fst [(''slug'', JMap [(''encoding'', JStr ''ascii'')]),
                               (''collections'', JList [])])"
    by simp
  have h3: "map_of [(''slug'', JMap [(''encoding'', JStr ''ascii'')]), (''collections'', JList [])]
              ''slug'' = None
          \<or> (\<exists>s. map_of [(''slug'', JMap [(''encoding'', JStr ''ascii'')]), (''collections'', JList [])]
              ''slug'' = Some (JMap s))"
    by simp
  show ?thesis using h1 h2 C9_slug_defaults[OF h1 h2 h3] by (simp add: getIn_slug_def map_get_def)
qed

text \<open>
  The claim as stated fails: a \<^verbatim>\<open>sanitize_replacement\<close> that is present as the empty
  string does not keep its value.
\<close>

theorem C9_counterexample:
  "applyDefaults sample_deps
     (JMap [(''slug'', JMap [(''sanitize_replacement'', JStr '''')]), (''collections'', JList [])])
     = Ok (JMap [(''publish_mode'', JStr ''simple''),
                 (''slug'', JMap [(''sanitize_replacement'', JStr ''-''),
                                  (''encoding'', JStr ''unicode''), (''clean_accents'', JBool False)]),
                 (''collections'', JList []), (''public_folder'', JStr ''/'')])"
  by (simp add: applyDefaults_eval)

section \<open>Collections\<close>

lemma applyDefaults_collections:
  assumes "applyDefaults d (JMap cfg) = Ok (JMap out)"
    and "distinct (map fst cfg)"
  shows "\<exists>cs'. map_of out ''collections'' = Some cs'
     \<and> coll_map (defaultCollection d (map_get cfg ''languages'')) (map_get cfg ''collections'')
         = Ok cs'"
proof -
  from applyDefaults_stages[OF assms(1)] obtain m0 m2 m3 m4 m5 where
    s: "mergeMap [(''publish_mode'', publish_SIMPLE d)] cfg = Some m0"
      "default_public_folder (default_display_url m0) = Ok m2"
      "default_slug m2 ''encoding'' (JStr ''unicode'') = Ok m3"
      "default_slug m3 ''clean_accents'' (JBool False) = Ok m4"
      "default_slug m4 ''sanitize_replacement'' (JStr ''-'') = Ok m5"
      "default_collections d m5 = Ok (JMap out)"
    by blast
  have fr: "map_of m5 k = map_of cfg k"
    if k: "k \<noteq> ''publish_mode''" "k \<noteq> ''display_url''" "k \<noteq> ''public_folder''" "k \<noteq> ''slug''"
    for k
  proof -
    have "map_of m5 k = map_of m4 k" by (rule default_slug_frame[OF s(5) k(4)])
    also have "\<dots> = map_of m3 k" by (rule default_slug_frame[OF s(4) k(4)])
    also have "\<dots> = map_of m2 k" by (rule default_slug_frame[OF s(3) k(4)])
    also have "\<dots> = map_of (default_display_url m0) k"
      by (rule default_public_folder_frame[OF s(2) k(3)])
    also have "\<dots> = map_of m0 k" by (rule default_display_url_frame[OF k(2)])
    also have "\<dots> = map_of cfg k" by (rule merge_defaults_frame[OF s(1) assms(2) k(1)])
    finally show ?thesis .
  qed
  have "map_get m5 ''collections'' = map_get cfg ''collections''"
    "map_get m5 ''languages'' = map_get cfg ''languages''"
    using fr[of "''collections''"] fr[of "''languages''"] by (simp_all add: map_get_def)
  with default_collections_frame[OF s(6)] show ?thesis by auto
qed

lemma coll_map_list:
  "coll_map f (JList xs) = Ok r \<Longrightarrow>
   \<exists>ys. r = JList ys \<and> length ys = length xs \<and> (\<forall>i<length xs. f (xs ! i) = Ok (ys ! i))"
  by (auto dest!: and_then_Ok map_result_nth)

lemma trimStart_JStr: "trimStart (JStr s) ''/'' = Some (dropWhile (\<lambda>c. c = CHR ''/'') s)"
  by (simp add: trimStart_def)

text \<open>The folder branch of the collection callback, split at the language step.\<close>

lemma defaultCollection_folder_branch:
  assumes "defaultCollection d langs (JMap c) = Ok r"
    and "truthy (map_get c ''folder'')"
  shows "\<exists>c1 c2 f. (c1 = c \<or> c1 = map_set c ''media_folder'' (JStr []))
     \<and> (if truthy langs \<and> truthy (map_get c ''fields'') then
           (\<exists>fjs ljs identifier fl. toJS_call (map_get c ''fields'') = Ok fjs
              \<and> toJS_call langs = Ok ljs
              \<and> selectIdentifier d (JMap c1) = Ok identifier
              \<and> addLanguageFields fjs ljs identifier = Ok fl
              \<and> c2 = map_set c1 ''fields'' (fromJS fl))
         else c2 = c1)
     \<and> trimStart (map_get c ''folder'') ''/'' = Some f
     \<and> r = JMap (map_set c2 ''folder'' (JStr f))"
proof -
  define c1 where "c1 = (if map_has c ''path'' \<and> \<not> map_has c ''media_folder''
                   then map_set c ''media_folder'' (JStr [])
                   else c)"
  have c1: "c1 = c \<or> c1 = map_set c ''media_folder'' (JStr [])" by (simp add: c1_def)
  then have fl: "map_get c1 ''fields'' = map_get c ''fields''"
    by (auto simp: map_get_set)
  define step where "step =
    (if truthy langs \<and> truthy (map_get c ''fields'') then
                 and_then (toJS_call (map_get c ''fields'')) (\<lambda>fjs.
                 and_then (toJS_call langs) (\<lambda>ljs.
                 and_then (selectIdentifier d (JMap c1)) (\<lambda>identifier.
                 and_then (addLanguageFields fjs ljs identifier) (\<lambda>r.
                   Ok (map_set c1 ''fields'' (fromJS r))))))
               else Ok c1)"
  have "defaultCollection d langs (JMap c) =
      and_then step (\<lambda>c2. and_then (of_option (trimStart (map_get c ''folder'') ''/''))
         (\<lambda>f. Ok (JMap (map_set c2 ''folder'' (JStr f)))))"
    unfolding step_def c1_def using assms(2)
    by (simp add: Let_def fl[unfolded c1_def] split del: if_split cong: if_cong)
  with assms(1) have "and_then step (\<lambda>c2. and_then (of_option (trimStart (map_get c ''folder'') ''/''))
         (\<lambda>f. Ok (JMap (map_set c2 ''folder'' (JStr f))))) = Ok r"
    by simp
  then obtain c2 f where c2: "step = Ok c2"
    and f: "trimStart (map_get c ''folder'') ''/'' = Some f"
    and r: "r = JMap (map_set c2 ''folder'' (JStr f))"
    by (auto dest!: and_then_Ok simp: of_option_Ok)
  have "if truthy langs \<and> truthy (map_get c ''fields'') then
           (\<exists>fjs ljs identifier fl. toJS_call (map_get c ''fields'') = Ok fjs
              \<and> toJS_call langs = Ok ljs
              \<and> selectIdentifier d (JMap c1) = Ok identifier
              \<and> addLanguageFields fjs ljs identifier = Ok fl
              \<and> c2 = map_set c1 ''fields'' (fromJS fl))
         else c2 = c1"
  proof (cases "truthy langs \<and> truthy (map_get c ''fields'')")
    case True
    with c2 have "and_then (toJS_call (map_get c ''fields'')) (\<lambda>fjs.
                 and_then (toJS_call langs) (\<lambda>ljs.
                 and_then (selectIdentifier d (JMap c1)) (\<lambda>identifier.
                 and_then (addLanguageFields fjs ljs identifier) (\<lambda>r.
                   Ok (map_set c1 ''fields'' (fromJS r)))))) = Ok c2"
      by (simp add: step_def)
    then obtain fjs where a: "toJS_call (map_get c ''fields'') = Ok fjs"
      and r1: "and_then (toJS_call langs) (\<lambda>ljs.
                 and_then (selectIdentifier d (JMap c1)) (\<lambda>identifier.
                 and_then (addLanguageFields fjs ljs identifier) (\<lambda>r.
                   Ok (map_set c1 ''fields'' (fromJS r))))) = Ok c2"
      by (auto dest!: and_then_Ok)
    from r1 obtain ljs where b: "toJS_call langs = Ok ljs"
      and r2: "and_then (selectIdentifier d (JMap c1)) (\<lambda>identifier.
                 and_then (addLanguageFields fjs ljs identifier) (\<lambda>r.
                   Ok (map_set c1 ''fields'' (fromJS r)))) = Ok c2"
      by (auto dest!: and_then_Ok)
    from r2 obtain idf where c: "selectIdentifier d (JMap c1) = Ok idf"
      and r3: "and_then (addLanguageFields fjs ljs idf) (\<lambda>r.
                   Ok (map_set c1 ''fields'' (fromJS r))) = Ok c2"
      by (auto dest!: and_then_Ok)
    from r3 obtain fl where "addLanguageFields fjs ljs idf = Ok fl"
      and "c2 = map_set c1 ''fields'' (fromJS fl)"
      by (auto dest!: and_then_Ok)
    with a b c True show ?thesis by auto
  next
    case False
    with c2 show ?thesis by (auto simp: step_def)
  qed
  with c1 f r show ?thesis by blast
qed

lemma defaultCollection_folder:
  assumes "defaultCollection d langs (JMap c) = Ok r"
    and "map_get c ''folder'' = JStr f"
    and "f \<noteq> []"
  shows "\<exists>c'. r = JMap c' \<and> map_get c' ''folder'' = JStr (dropWhile (\<lambda>x. x = CHR ''/'') f)"
proof -
  from assms(2,3) have t: "truthy (map_get c ''folder'')" by simp
  from defaultCollection_folder_branch[OF assms(1) t] assms(2) show ?thesis
    by (auto simp: trimStart_JStr map_get_set)
qed

lemma defaultFile_path:
  assumes "defaultFile (JMap file) = Ok r"
    and "map_get file ''file'' = JStr p"
  shows "\<exists>file'. r = JMap file' \<and> map_get file' ''file'' = JStr (dropWhile (\<lambda>x. x = CHR ''/'') p)"
  using assms by (auto simp: trimStart_JStr map_get_set)

lemma defaultCollection_files:
  assumes "defaultCollection d langs (JMap c) = Ok r"
    and "\<not> truthy (map_get c ''folder'')"
    and "map_get c ''files'' = JList fs"
  shows "\<exists>c' fs'. r = JMap c' \<and> map_get c' ''files'' = JList fs' \<and> length fs' = length fs
     \<and> (\<forall>j<length fs. defaultFile (fs ! j) = Ok (fs' ! j))"
proof -
  from assms have "and_then (coll_map defaultFile (JList fs))
      (\<lambda>fs'. Ok (JMap (map_set c ''files'' fs'))) = Ok r"
    by (simp add: Let_def)
  then obtain x where x: "coll_map defaultFile (JList fs) = Ok x"
    and r: "r = JMap (map_set c ''files'' x)"
    by (auto dest!: and_then_Ok)
  from coll_map_list[OF x] r show ?thesis by (auto simp: map_get_set)
qed

text \<open>
  C7. \<^verbatim>\<open>applyDefaults\<close> replaces the folder path of every folder-based collection, and the
  path of every file of a files-based collection (one without a folder), by the path
  without its leading slashes: \<^verbatim>\<open>/posts\<close> becomes \<^verbatim>\<open>posts\<close>, and a path that does not
  start with a slash stays as it is.
\<close>

theorem C7_leading_slash_stripped:
  assumes "applyDefaults d (JMap cfg) = Ok (JMap out)"
    and "distinct (map fst cfg)"
    and "map_get cfg ''collections'' = JList cs"
  shows "(\<exists>cs'. map_get out ''collections'' = JList cs' \<and> length cs' = length cs \<and>
     (\<forall>i<length cs. \<forall>c. cs ! i = JMap c \<longrightarrow>
        (\<forall>f. map_get c ''folder'' = JStr f \<and> f \<noteq> [] \<longrightarrow>
           (\<exists>c'. cs' ! i = JMap c'
              \<and> map_get c' ''folder'' = JStr (dropWhile (\<lambda>x. x = CHR ''/'') f)))
      \<and> (\<forall>fs. \<not> truthy (map_get c ''folder'') \<and> map_get c ''files'' = JList fs \<longrightarrow>
           (\<exists>c' fs'. cs' ! i = JMap c' \<and> map_get c' ''files'' = JList fs'
              \<and> length fs' = length fs
              \<and> (\<forall>j<length fs. \<forall>file p. fs ! j = JMap file \<and> map_get file ''file'' = JStr p \<longrightarrow>
                    (\<exists>file'. fs' ! j = JMap file'
                       \<and> map_get file' ''file'' = JStr (dropWhile (\<lambda>x. x = CHR ''/'') p)))))))
    \<and> dropWhile (\<lambda>x. x = CHR ''/'') ''/posts'' = ''posts''
    \<and> (\<forall>p. (p = [] \<or> hd p \<noteq> CHR ''/'') \<longrightarrow> dropWhile (\<lambda>x. x = CHR ''/'') p = p)"
proof -
  from applyDefaults_collections[OF assms(1,2)] assms(3) obtain r where
    o: "map_of out ''collections'' = Some r"
    and cm: "coll_map (defaultCollection d (map_get cfg ''languages'')) (JList cs) = Ok r"
    by auto
  from coll_map_list[OF cm] obtain cs' where r: "r = JList cs'" and l: "length cs' = length cs"
    and each: "\<forall>i<length cs. defaultCollection d (map_get cfg ''languages'') (cs ! i) = Ok (cs' ! i)"
    by blast
  from o r have oc: "map_get out ''collections'' = JList cs'" by (simp add: map_get_def)
  have main: "(\<forall>f. map_get c ''folder'' = JStr f \<and> f \<noteq> [] \<longrightarrow>
           (\<exists>c'. cs' ! i = JMap c'
              \<and> map_get c' ''folder'' = JStr (dropWhile (\<lambda>x. x = CHR ''/'') f)))
      \<and> (\<forall>fs. \<not> truthy (map_get c ''folder'') \<and> map_get c ''files'' = JList fs \<longrightarrow>
           (\<exists>c' fs'. cs' ! i = JMap c' \<and> map_get c' ''files'' = JList fs'
              \<and> length fs' = length fs
              \<and> (\<forall>j<length fs. \<forall>file p. fs ! j = JMap file \<and> map_get file ''file'' = JStr p \<longrightarrow>
                    (\<exists>file'. fs' ! j = JMap file'
                       \<and> map_get file' ''file'' = JStr (dropWhile (\<lambda>x. x = CHR ''/'') p)))))"
    if i: "i < length cs" and c: "cs ! i = JMap c" for i c
  proof -
    from each i have "defaultCollection d (map_get cfg ''languages'') (cs ! i) = Ok (cs' ! i)"
      by blast
    then have dc: "defaultCollection d (map_get cfg ''languages'') (JMap c) = Ok (cs' ! i)"
      unfolding c .
    have a: "\<exists>c'. cs' ! i = JMap c'
              \<and> map_get c' ''folder'' = JStr (dropWhile (\<lambda>x. x = CHR ''/'') f)"
      if "map_get c ''folder'' = JStr f" "f \<noteq> []" for f
      using defaultCollection_folder[OF dc that] .
    have b: "\<exists>c' fs'. cs' ! i = JMap c' \<and> map_get c' ''files'' = JList fs'
              \<and> length fs' = length fs
              \<and> (\<forall>j<length fs. \<forall>file p. fs ! j = JMap file \<and> map_get file ''file'' = JStr p \<longrightarrow>
                    (\<exists>file'. fs' ! j = JMap file'
                       \<and> map_get file' ''file'' = JStr (dropWhile (\<lambda>x. x = CHR ''/'') p)))"
      if nf: "\<not> truthy (map_get c ''folder'')" and fl: "map_get c ''files'' = JList fs" for fs
    proof -
      from defaultCollection_files[OF dc nf fl] obtain c' fs' where
        x: "cs' ! i = JMap c'" "map_get c' ''files'' = JList fs'" "length fs' = length fs"
        and y: "\<forall>j<length fs. defaultFile (fs ! j) = Ok (fs' ! j)"
        by blast
      have "\<exists>file'. fs' ! j = JMap file'
                       \<and> map_get file' ''file'' = JStr (dropWhile (\<lambda>x. x = CHR ''/'') p)"
        if "j < length fs" "fs ! j = JMap fi" "map_get fi ''file'' = JStr p" for j fi p
      proof -
        from y that(1) have "defaultFile (fs ! j) = Ok (fs' ! j)" by blast
        then have "defaultFile (JMap fi) = Ok (fs' ! j)" unfolding that(2) .
        from defaultFile_path[OF this that(3)] show ?thesis .
      qed
      with x show ?thesis by blast
    qed
    from a b show ?thesis by blast
  qed
  have e: "(\<forall>p. (p = [] \<or> hd p \<noteq> CHR ''/'') \<longrightarrow> dropWhile (\<lambda>x. x = CHR ''/'') p = p)"
  proof (intro allI impI)
    fix p :: string
    assume "p = [] \<or> hd p \<noteq> CHR ''/''"
    then show "dropWhile (\<lambda>x. x = CHR ''/'') p = p" by (cases p) auto
  qed
  have x: "dropWhile (\<lambda>x. x = CHR ''/'') ''/posts'' = ''posts''" by simp
  from oc l main e x show ?thesis by blast
qed

theorem C7_leading_slash_stripped_witness:
  "applyDefaults sample_deps
     (JMap [(''collections'',
             JList [JMap [(''folder'', JStr ''/posts'')],
                    JMap [(''files'', JList [JMap [(''file'', JStr ''/pages/about.md'')]])]])])
     = Ok (JMap [(''publish_mode'', JStr ''simple''),
                 (''collections'',
                  JList [JMap [(''folder'', JStr ''posts'')],
                         JMap [(''files'', JList [JMap [(''file'', JStr ''pages/about.md'')]])]]),
                 (''public_folder'', JStr ''/''),
                 (''slug'', JMap [(''encoding'', JStr ''unicode''), (''clean_accents'', JBool False),
                                  (''sanitize_replacement'', JStr ''-'')])])
   \<and> distinct (map fst [(''collections'',
             JList [JMap [(''folder'', JStr ''/posts'')],
                    JMap [(''files'', JList [JMap [(''file'', JStr ''/pages/about.md'')]])]])])
   \<and> map_get [(''collections'',
             JList [JMap [(''folder'', JStr ''/posts'')],
                    JMap [(''files'', JList [JMap [(''file'', JStr ''/pages/about.md'')]])]])]
         ''collections''
       = JList [JMap [(''folder'', JStr ''/posts'')],
                JMap [(''files'', JList [JMap [(''file'', JStr ''/pages/about.md'')]])]]
   \<and> dropWhile (\<lambda>x. x = CHR ''/'') ''/posts'' = ''posts''"
proof -
  have h1: "applyDefaults sample_deps
     (JMap [(''collections'',
             JList [JMap [(''folder'', JStr ''/posts'')],
                    JMap [(''files'', JList [JMap [(''file'', JStr ''/pages/about.md'')]])]])])
     = Ok (JMap [(''publish_mode'', JStr ''simple''),
                 (''collections'',
                  JList [JMap [(''folder'', JStr ''posts'')],
                         JMap [(''files'', JList [JMap [(''file'', JStr ''pages/about.md'')]])]]),
                 (''public_folder'', JStr ''/''),
                 (''slug'', JMap [(''encoding'', JStr ''unicode''), (''clean_accents'', JBool False),
                                  (''sanitize_replacement'', JStr ''-'')])])"
    by (simp add: applyDefaults_eval)
  have h2: "distinct (map fst [(''collections'',
             JList [JMap [(''folder'', JStr ''/posts'')],
                    JMap [(''files'', JList [JMap [(''file'', JStr ''/pages/about.md'')]])]])])"
    by simp
  have h3: "map_get [(''collections'',
             JList [JMap [(''folder'', JStr ''/posts'')],
                    JMap [(''files'', JList [JMap [(''file'', JStr ''/pages/about.md'')]])]])]
         ''collections''
       = JList [JMap [(''folder'', JStr ''/posts'')],
                JMap [(''files'', JList [JMap [(''file'', JStr ''/pages/about.md'')]])]]"
    by (simp add: map_get_def)
  show ?thesis using h1 h2 h3 C7_leading_slash_stripped[OF h1 h2 h3] by simp
qed

section \<open>Language fields\<close>

lemma langField_copy:
  assumes "langField item lang = Ok r"
  shows "\<exists>code up sub. lang = JStr code \<and> toUpperCase code = Some up \<and> r = JMap sub
     \<and> map_get sub ''name'' = JStr code \<and> map_get sub ''label'' = JStr up
     \<and> \<not> map_has sub ''translate''
     \<and> (\<forall>k. k \<notin> {''translate'', ''label'', ''name''} \<longrightarrow> map_of sub k = map_of item k)"
proof (cases lang)
  case (JStr code)
  with assms obtain up where up: "toUpperCase code = Some up"
    and r: "r = JMap (map_set (map_set (omit (cloneDeep item) ''translate'') ''label'' (JStr up))
                   ''name'' (JStr code))"
    by (auto dest!: and_then_Ok simp: of_option_Ok)
  show ?thesis
    unfolding JStr r
    by (simp add: up map_get_set map_has_set map_of_set map_has_def map_of_omit cloneDeep_def)
qed (use assms in auto)

lemma langFields_copies:
  assumes "langFields item langs = Ok lfs"
  shows "\<exists>ls. langs = JList ls \<and> length lfs = length ls
     \<and> (\<forall>j<length ls. langField item (ls ! j) = Ok (lfs ! j))"
proof (cases langs)
  case (JList ls)
  with assms have "map_result (langField item) ls = Ok lfs" by simp
  from map_result_nth[OF this] JList show ?thesis by simp
qed (use assms in auto)

lemma expandField_cases:
  assumes "expandField langs idf item = Ok x"
  shows "(if \<exists>kvs. item = JMap kvs \<and> truthy (map_get kvs ''translate'')
             \<and> \<not> strict_eq (map_get kvs ''name'') idf
             \<and> \<not> strict_eq (map_get kvs ''name'') (JStr ''body'')
          then \<exists>kvs lfs. item = JMap kvs \<and> langFields kvs langs = Ok lfs
             \<and> x = JMap (map_set (map_set (omit kvs ''translate'') ''widget'' (JStr ''object''))
                         ''fields'' (JList lfs))
          else x = item)"
  using assms
  by (cases item) (auto simp: expandField_def dest!: and_then_Ok split: if_splits)

lemma reduce_fields_nth:
  "reduce_fields langs idf acc items = Ok r \<Longrightarrow>
   \<exists>xs. r = acc @ xs \<and> length xs = length items
     \<and> (\<forall>i<length items. expandField langs idf (items ! i) = Ok (xs ! i))"
proof (induction items arbitrary: acc)
  case Nil
  then show ?case by simp
next
  case (Cons item items)
  from Cons.prems obtain x where x: "expandField langs idf item = Ok x"
    and r: "reduce_fields langs idf (acc @ [x]) items = Ok r"
    by (auto dest!: and_then_Ok)
  from Cons.IH[OF r] obtain xs where xs: "r = (acc @ [x]) @ xs" "length xs = length items"
    "\<forall>i<length items. expandField langs idf (items ! i) = Ok (xs ! i)"
    by blast
  have "r = acc @ (x # xs)" using xs(1) by simp
  moreover have "length (x # xs) = length (item # items)" using xs(2) by simp
  moreover have "\<forall>i<length (item # items). expandField langs idf ((item # items) ! i) = Ok ((x # xs) ! i)"
    using x xs(3) by (auto simp: nth_Cons split: nat.splits)
  ultimately show ?case by blast
qed

text \<open>What the \<^verbatim>\<open>reduce\<close> callback appends for one field.\<close>

lemma expandField_result:
  assumes "expandField (JList langs) idf fld = Ok x"
  shows "if \<exists>item. fld = JMap item \<and> truthy (map_get item ''translate'')
             \<and> \<not> strict_eq (map_get item ''name'') idf
             \<and> \<not> strict_eq (map_get item ''name'') (JStr ''body'')
         then \<exists>item w subs. fld = JMap item \<and> x = JMap w
             \<and> \<not> map_has w ''translate''
             \<and> map_get w ''widget'' = JStr ''object''
             \<and> map_get w ''fields'' = JList subs
             \<and> (\<forall>k. k \<notin> {''translate'', ''widget'', ''fields''} \<longrightarrow> map_of w k = map_of item k)
             \<and> length subs = length langs
             \<and> (\<forall>j<length langs. \<exists>code up sub.
                   langs ! j = JStr code \<and> toUpperCase code = Some up \<and> subs ! j = JMap sub
                   \<and> map_get sub ''name'' = JStr code \<and> map_get sub ''label'' = JStr up
                   \<and> \<not> map_has sub ''translate''
                   \<and> (\<forall>k. k \<notin> {''translate'', ''label'', ''name''} \<longrightarrow>
                          map_of sub k = map_of item k))
         else x = fld"
proof (cases "\<exists>item. fld = JMap item \<and> truthy (map_get item ''translate'')
             \<and> \<not> strict_eq (map_get item ''name'') idf
             \<and> \<not> strict_eq (map_get item ''name'') (JStr ''body'')")
  case False
  with expandField_cases[OF assms] show ?thesis by auto
next
  case True
  with expandField_cases[OF assms] obtain item lfs where item: "fld = JMap item"
    and lfs: "langFields item (JList langs) = Ok lfs"
    and x: "x = JMap (map_set (map_set (omit item ''translate'') ''widget'' (JStr ''object''))
                         ''fields'' (JList lfs))"
    by auto
  define w where "w = map_set (map_set (omit item ''translate'') ''widget'' (JStr ''object''))
                         ''fields'' (JList lfs)"
  from langFields_copies[OF lfs] have len: "length lfs = length langs"
    and each: "\<forall>j<length langs. langField item (langs ! j) = Ok (lfs ! j)"
    by auto
  have w1: "\<not> map_has w ''translate''"
    by (simp add: w_def map_has_def map_of_set map_of_omit)
  have w2: "map_get w ''widget'' = JStr ''object''" "map_get w ''fields'' = JList lfs"
    by (simp_all add: w_def map_get_set)
  have w3: "\<forall>k. k \<notin> {''translate'', ''widget'', ''fields''} \<longrightarrow> map_of w k = map_of item k"
    by (simp add: w_def map_of_set map_of_omit)
  have subs: "\<forall>j<length langs. \<exists>code up sub.
                   langs ! j = JStr code \<and> toUpperCase code = Some up \<and> lfs ! j = JMap sub
                   \<and> map_get sub ''name'' = JStr code \<and> map_get sub ''label'' = JStr up
                   \<and> \<not> map_has sub ''translate''
                   \<and> (\<forall>k. k \<notin> {''translate'', ''label'', ''name''} \<longrightarrow>
                          map_of sub k = map_of item k)"
  proof (intro allI impI)
    fix j assume "j < length langs"
    with each have "langField item (langs ! j) = Ok (lfs ! j)" by blast
    from langField_copy[OF this] show "\<exists>code up sub.
                   langs ! j = JStr code \<and> toUpperCase code = Some up \<and> lfs ! j = JMap sub
                   \<and> map_get sub ''name'' = JStr code \<and> map_get sub ''label'' = JStr up
                   \<and> \<not> map_has sub ''translate''
                   \<and> (\<forall>k. k \<notin> {''translate'', ''label'', ''name''} \<longrightarrow>
                          map_of sub k = map_of item k)" .
  qed
  from x have xw: "x = JMap w" by (simp add: w_def)
  have "\<exists>item w subs. fld = JMap item \<and> x = JMap w
             \<and> \<not> map_has w ''translate''
             \<and> map_get w ''widget'' = JStr ''object''
             \<and> map_get w ''fields'' = JList subs
             \<and> (\<forall>k. k \<notin> {''translate'', ''widget'', ''fields''} \<longrightarrow> map_of w k = map_of item k)
             \<and> length subs = length langs
             \<and> (\<forall>j<length langs. \<exists>code up sub.
                   langs ! j = JStr code \<and> toUpperCase code = Some up \<and> subs ! j = JMap sub
                   \<and> map_get sub ''name'' = JStr code \<and> map_get sub ''label'' = JStr up
                   \<and> \<not> map_has sub ''translate''
                   \<and> (\<forall>k. k \<notin> {''translate'', ''label'', ''name''} \<longrightarrow>
                          map_of sub k = map_of item k))"
    using item xw w1 w2 w3 len subs by blast
  with True show ?thesis by simp
qed

lemma addLanguageFields_nth:
  assumes "addLanguageFields (JList flds) langs idf = Ok fl"
  shows "\<exists>outs. fl = JList outs \<and> length outs = length flds
     \<and> (\<forall>i<length flds. expandField langs idf (flds ! i) = Ok (outs ! i))"
proof -
  from assms obtain acc where "reduce_fields langs idf [] flds = Ok acc" and "fl = JList acc"
    by (auto dest!: and_then_Ok)
  with reduce_fields_nth[of langs idf "[]" flds acc] show ?thesis by auto
qed

text \<open>The fields of a folder collection after the collection callback, for a list of languages.\<close>

lemma defaultCollection_language_fields:
  assumes "defaultCollection d (JList langs) (JMap c) = Ok r"
    and "truthy (map_get c ''folder'')"
    and "map_get c ''fields'' = JList flds"
  shows "\<exists>c' c1 idf outs. r = JMap c' \<and> map_get c' ''fields'' = JList outs
      \<and> (c1 = c \<or> c1 = map_set c ''media_folder'' (JStr []))
      \<and> selectIdentifier d (JMap c1) = Ok idf
      \<and> addLanguageFields (JList flds) (JList langs) idf = Ok (JList outs)
      \<and> length outs = length flds
      \<and> (\<forall>i<length flds.
           if \<exists>item. flds ! i = JMap item \<and> truthy (map_get item ''translate'')
                \<and> \<not> strict_eq (map_get item ''name'') idf
                \<and> \<not> strict_eq (map_get item ''name'') (JStr ''body'')
           then \<exists>item w subs. flds ! i = JMap item \<and> outs ! i = JMap w
                \<and> \<not> map_has w ''translate''
                \<and> map_get w ''widget'' = JStr ''object''
                \<and> map_get w ''fields'' = JList subs
                \<and> (\<forall>k. k \<notin> {''translate'', ''widget'', ''fields''} \<longrightarrow>
                       map_of w k = map_of item k)
                \<and> length subs = length langs
                \<and> (\<forall>j<length langs. \<exists>code up sub.
                      langs ! j = JStr code \<and> toUpperCase code = Some up \<and> subs ! j = JMap sub
                      \<and> map_get sub ''name'' = JStr code \<and> map_get sub ''label'' = JStr up
                      \<and> \<not> map_has sub ''translate''
                      \<and> (\<forall>k. k \<notin> {''translate'', ''label'', ''name''} \<longrightarrow>
                             map_of sub k = map_of item k))
           else outs ! i = flds ! i)"
proof -
  from assms(3) have tf: "truthy (JList langs) \<and> truthy (map_get c ''fields'')" by simp
  from defaultCollection_folder_branch[OF assms(1,2)] obtain c1 c2 f where
    c1: "c1 = c \<or> c1 = map_set c ''media_folder'' (JStr [])"
    and st: "if truthy (JList langs) \<and> truthy (map_get c ''fields'') then
           (\<exists>fjs ljs idf fl. toJS_call (map_get c ''fields'') = Ok fjs
              \<and> toJS_call (JList langs) = Ok ljs
              \<and> selectIdentifier d (JMap c1) = Ok idf
              \<and> addLanguageFields fjs ljs idf = Ok fl
              \<and> c2 = map_set c1 ''fields'' (fromJS fl))
         else c2 = c1"
    and r: "r = JMap (map_set c2 ''folder'' (JStr f))"
    by blast
  from st tf have "\<exists>fjs ljs idf fl. toJS_call (map_get c ''fields'') = Ok fjs
              \<and> toJS_call (JList langs) = Ok ljs
              \<and> selectIdentifier d (JMap c1) = Ok idf
              \<and> addLanguageFields fjs ljs idf = Ok fl
              \<and> c2 = map_set c1 ''fields'' (fromJS fl)"
    by (simp only: if_True simp_thms)
  then obtain fjs ljs idf fl where
    a: "toJS_call (map_get c ''fields'') = Ok fjs" "toJS_call (JList langs) = Ok ljs"
    and si: "selectIdentifier d (JMap c1) = Ok idf"
    and al: "addLanguageFields fjs ljs idf = Ok fl"
    and c2: "c2 = map_set c1 ''fields'' (fromJS fl)"
    by blast
  from a assms(3) have js: "fjs = JList flds" "ljs = JList langs" by (simp_all add: toJS_def)
  from addLanguageFields_nth[OF al[unfolded js]] obtain outs where fl: "fl = JList outs"
    and len: "length outs = length flds"
    and each: "\<forall>i<length flds. expandField (JList langs) idf (flds ! i) = Ok (outs ! i)"
    by blast
  have fields: "map_get (map_set c2 ''folder'' (JStr f)) ''fields'' = JList outs"
    by (simp add: map_get_set c2 fl fromJS_def)
  have pointwise: "\<forall>i<length flds.
           if \<exists>item. flds ! i = JMap item \<and> truthy (map_get item ''translate'')
                \<and> \<not> strict_eq (map_get item ''name'') idf
                \<and> \<not> strict_eq (map_get item ''name'') (JStr ''body'')
           then \<exists>item w subs. flds ! i = JMap item \<and> outs ! i = JMap w
                \<and> \<not> map_has w ''translate''
                \<and> map_get w ''widget'' = JStr ''object''
                \<and> map_get w ''fields'' = JList subs
                \<and> (\<forall>k. k \<notin> {''translate'', ''widget'', ''fields''} \<longrightarrow>
                       map_of w k = map_of item k)
                \<and> length subs = length langs
                \<and> (\<forall>j<length langs. \<exists>code up sub.
                      langs ! j = JStr code \<and> toUpperCase code = Some up \<and> subs ! j = JMap sub
                      \<and> map_get sub ''name'' = JStr code \<and> map_get sub ''label'' = JStr up
                      \<and> \<not> map_has sub ''translate''
                      \<and> (\<forall>k. k \<notin> {''translate'', ''label'', ''name''} \<longrightarrow>
                             map_of sub k = map_of item k))
           else outs ! i = flds ! i"
  proof (intro allI impI)
    fix i assume "i < length flds"
    with each have "expandField (JList langs) idf (flds ! i) = Ok (outs ! i)" by blast
    from expandField_result[OF this] show "if \<exists>item. flds ! i = JMap item \<and> truthy (map_get item ''translate'')
                \<and> \<not> strict_eq (map_get item ''name'') idf
                \<and> \<not> strict_eq (map_get item ''name'') (JStr ''body'')
           then \<exists>item w subs. flds ! i = JMap item \<and> outs ! i = JMap w
                \<and> \<not> map_has w ''translate''
                \<and> map_get w ''widget'' = JStr ''object''
                \<and> map_get w ''fields'' = JList subs
                \<and> (\<forall>k. k \<notin> {''translate'', ''widget'', ''fields''} \<longrightarrow>
                       map_of w k = map_of item k)
                \<and> length subs = length langs
                \<and> (\<forall>j<length langs. \<exists>code up sub.
                      langs ! j = JStr code \<and> toUpperCase code = Some up \<and> subs ! j = JMap sub
                      \<and> map_get sub ''name'' = JStr code \<and> map_get sub ''label'' = JStr up
                      \<and> \<not> map_has sub ''translate''
                      \<and> (\<forall>k. k \<notin> {''translate'', ''label'', ''name''} \<longrightarrow>
                             map_of sub k = map_of item k))
           else outs ! i = flds ! i" .
  qed
  from r fields c1 si al[unfolded js fl] len pointwise show ?thesis
    by blast
qed

text \<open>
  C5. In a folder collection of a configuration with a list of languages, the fields after
  \<^verbatim>\<open>applyDefaults\<close> are \<^verbatim>\<open>addLanguageFields\<close> of the fields before, one for one: a field
  with a truthy \<^verbatim>\<open>translate\<close> whose name is neither the identifier that
  \<^verbatim>\<open>selectIdentifier\<close> gives for the collection nor \<^verbatim>\<open>body\<close> is replaced by a wrapper,
  which is the field without \<^verbatim>\<open>translate\<close>, with widget \<^verbatim>\<open>object\<close> and with one sub-field
  per language; the sub-field of a language is the field without \<^verbatim>\<open>translate\<close>, named
  with the language code and labelled with the code in upper case. Every other field
  stays as it is. For the languages \<^verbatim>\<open>en\<close>, \<^verbatim>\<open>fr\<close> and the field
  \<^verbatim>\<open>{name: title, translate: true}\<close> the result is the one wrapper \<^verbatim>\<open>title\<close> with the
  sub-fields \<^verbatim>\<open>en\<close>/\<^verbatim>\<open>EN\<close> and \<^verbatim>\<open>fr\<close>/\<^verbatim>\<open>FR\<close>.
\<close>

theorem C5_language_fields:
  assumes "applyDefaults d (JMap cfg) = Ok (JMap out)"
    and "distinct (map fst cfg)"
    and "map_get cfg ''languages'' = JList langs"
    and "map_get cfg ''collections'' = JList cs"
    and "i < length cs"
    and "cs ! i = JMap c"
    and "truthy (map_get c ''folder'')"
    and "map_get c ''fields'' = JList flds"
  shows "(\<exists>cs' c' c1 idf outs. map_get out ''collections'' = JList cs' \<and> length cs' = length cs
      \<and> cs' ! i = JMap c' \<and> map_get c' ''fields'' = JList outs
      \<and> (c1 = c \<or> c1 = map_set c ''media_folder'' (JStr []))
      \<and> selectIdentifier d (JMap c1) = Ok idf
      \<and> addLanguageFields (JList flds) (JList langs) idf = Ok (JList outs)
      \<and> length outs = length flds
      \<and> (\<forall>n<length flds.
           if \<exists>item. flds ! n = JMap item \<and> truthy (map_get item ''translate'')
                \<and> \<not> strict_eq (map_get item ''name'') idf
                \<and> \<not> strict_eq (map_get item ''name'') (JStr ''body'')
           then \<exists>item w subs. flds ! n = JMap item \<and> outs ! n = JMap w
                \<and> \<not> map_has w ''translate''
                \<and> map_get w ''widget'' = JStr ''object''
                \<and> map_get w ''fields'' = JList subs
                \<and> (\<forall>k. k \<notin> {''translate'', ''widget'', ''fields''} \<longrightarrow>
                       map_of w k = map_of item k)
                \<and> length subs = length langs
                \<and> (\<forall>j<length langs. \<exists>code up sub.
                      langs ! j = JStr code \<and> toUpperCase code = Some up \<and> subs ! j = JMap sub
                      \<and> map_get sub ''name'' = JStr code \<and> map_get sub ''label'' = JStr up
                      \<and> \<not> map_has sub ''translate''
                      \<and> (\<forall>k. k \<notin> {''translate'', ''label'', ''name''} \<longrightarrow>
                             map_of sub k = map_of item k))
           else outs ! n = flds ! n))
    \<and> addLanguageFields (JList [JMap [(''name'', JStr ''title''), (''translate'', JBool True)]])
          (JList [JStr ''en'', JStr ''fr'']) (JStr ''slug'')
        = Ok (JList [JMap [(''name'', JStr ''title''), (''widget'', JStr ''object''),
                           (''fields'', JList [JMap [(''name'', JStr ''en''), (''label'', JStr ''EN'')],
                                               JMap [(''name'', JStr ''fr''), (''label'', JStr ''FR'')]])]])"
proof -
  from applyDefaults_collections[OF assms(1,2)] assms(3,4) obtain r where
    o: "map_of out ''collections'' = Some r"
    and cm: "coll_map (defaultCollection d (JList langs)) (JList cs) = Ok r"
    by auto
  from coll_map_list[OF cm] obtain cs' where r: "r = JList cs'" and l: "length cs' = length cs"
    and each: "\<forall>i<length cs. defaultCollection d (JList langs) (cs ! i) = Ok (cs' ! i)"
    by blast
  from o r have oc: "map_get out ''collections'' = JList cs'" by (simp add: map_get_def)
  from each assms(5) have "defaultCollection d (JList langs) (cs ! i) = Ok (cs' ! i)" by blast
  then have dc: "defaultCollection d (JList langs) (JMap c) = Ok (cs' ! i)"
    unfolding assms(6) .
  from defaultCollection_language_fields[OF dc assms(7,8)] oc l
  have main: "\<exists>cs' c' c1 idf outs. map_get out ''collections'' = JList cs' \<and> length cs' = length cs
      \<and> cs' ! i = JMap c' \<and> map_get c' ''fields'' = JList outs
      \<and> (c1 = c \<or> c1 = map_set c ''media_folder'' (JStr []))
      \<and> selectIdentifier d (JMap c1) = Ok idf
      \<and> addLanguageFields (JList flds) (JList langs) idf = Ok (JList outs)
      \<and> length outs = length flds
      \<and> (\<forall>n<length flds.
           if \<exists>item. flds ! n = JMap item \<and> truthy (map_get item ''translate'')
                \<and> \<not> strict_eq (map_get item ''name'') idf
                \<and> \<not> strict_eq (map_get item ''name'') (JStr ''body'')
           then \<exists>item w subs. flds ! n = JMap item \<and> outs ! n = JMap w
                \<and> \<not> map_has w ''translate''
                \<and> map_get w ''widget'' = JStr ''object''
                \<and> map_get w ''fields'' = JList subs
                \<and> (\<forall>k. k \<notin> {''translate'', ''widget'', ''fields''} \<longrightarrow>
                       map_of w k = map_of item k)
                \<and> length subs = length langs
                \<and> (\<forall>j<length langs. \<exists>code up sub.
                      langs ! j = JStr code \<and> toUpperCase code = Some up \<and> subs ! j = JMap sub
                      \<and> map_get sub ''name'' = JStr code \<and> map_get sub ''label'' = JStr up
                      \<and> \<not> map_has sub ''translate''
                      \<and> (\<forall>k. k \<notin> {''translate'', ''label'', ''name''} \<longrightarrow>
                             map_of sub k = map_of item k))
           else outs ! n = flds ! n)"
    by blast
  have ex: "addLanguageFields (JList [JMap [(''name'', JStr ''title''), (''translate'', JBool True)]])
          (JList [JStr ''en'', JStr ''fr'']) (JStr ''slug'')
        = Ok (JList [JMap [(''name'', JStr ''title''), (''widget'', JStr ''object''),
                           (''fields'', JList [JMap [(''name'', JStr ''en''), (''label'', JStr ''EN'')],
                                               JMap [(''name'', JStr ''fr''), (''label'', JStr ''FR'')]])]])"
    by (simp add: applyDefaults_eval)
  from main ex show ?thesis by (rule conjI)
qed

theorem C5_language_fields_witness:
  "applyDefaults sample_deps
     (JMap [(''languages'', JList [JStr ''en'', JStr ''fr'']),
      (''collections'',
       JList [JMap [(''folder'', JStr ''posts''),
                    (''fields'',
                     JList [JMap [(''name'', JStr ''title''), (''translate'', JBool True)],
                            JMap [(''name'', JStr ''slug''), (''translate'', JBool True)],
                            JMap [(''name'', JStr ''body''), (''translate'', JBool True)],
                            JMap [(''name'', JStr ''date'')]])]])])
   = Ok (JMap [(''publish_mode'', JStr ''simple''),
      (''languages'', JList [JStr ''en'', JStr ''fr'']),
      (''collections'',
       JList [JMap [(''folder'', JStr ''posts''),
                    (''fields'',
                     JList [JMap [(''name'', JStr ''title''), (''widget'', JStr ''object''),
                                  (''fields'',
                                   JList [JMap [(''name'', JStr ''en''), (''label'', JStr ''EN'')],
                                          JMap [(''name'', JStr ''fr''), (''label'', JStr ''FR'')]])],
                            JMap [(''name'', JStr ''slug''), (''translate'', JBool True)],
                            JMap [(''name'', JStr ''body''), (''translate'', JBool True)],
                            JMap [(''name'', JStr ''date'')]])]]),
      (''public_folder'', JStr ''/''),
      (''slug'', JMap [(''encoding'', JStr ''unicode''), (''clean_accents'', JBool False),
                       (''sanitize_replacement'', JStr ''-'')])])
   \<and> distinct (map fst [(''languages'', JList [JStr ''en'', JStr ''fr'']),
      (''collections'',
       JList [JMap [(''folder'', JStr ''posts''),
                    (''fields'',
                     JList [JMap [(''name'', JStr ''title''), (''translate'', JBool True)],
                            JMap [(''name'', JStr ''slug''), (''translate'', JBool True)],
                            JMap [(''name'', JStr ''body''), (''translate'', JBool True)],
                            JMap [(''name'', JStr ''date'')]])]])])
   \<and> map_get [(''languages'', JList [JStr ''en'', JStr ''fr'']),
      (''collections'',
       JList [JMap [(''folder'', JStr ''posts''),
                    (''fields'',
                     JList [JMap [(''name'', JStr ''title''), (''translate'', JBool True)],
                            JMap [(''name'', JStr ''slug''), (''translate'', JBool True)],
                            JMap [(''name'', JStr ''body''), (''translate'', JBool True)],
                            JMap [(''name'', JStr ''date'')]])]])] ''languages'' = JList [JStr ''en'', JStr ''fr'']
   \<and> map_get [(''languages'', JList [JStr ''en'', JStr ''fr'']),
      (''collections'',
       JList [JMap [(''folder'', JStr ''posts''),
                    (''fields'',
                     JList [JMap [(''name'', JStr ''title''), (''translate'', JBool True)],
                            JMap [(''name'', JStr ''slug''), (''translate'', JBool True)],
                            JMap [(''name'', JStr ''body''), (''translate'', JBool True)],
                            JMap [(''name'', JStr ''date'')]])]])] ''collections'' = JList [JMap [(''folder'', JStr ''posts''),
                    (''fields'',
                     JList [JMap [(''name'', JStr ''title''), (''translate'', JBool True)],
                            JMap [(''name'', JStr ''slug''), (''translate'', JBool True)],
                            JMap [(''name'', JStr ''body''), (''translate'', JBool True)],
                            JMap [(''name'', JStr ''date'')]])]]
   \<and> truthy (map_get [(''folder'', JStr ''posts''),
                    (''fields'',
                     JList [JMap [(''name'', JStr ''title''), (''translate'', JBool True)],
                            JMap [(''name'', JStr ''slug''), (''translate'', JBool True)],
                            JMap [(''name'', JStr ''body''), (''translate'', JBool True)],
                            JMap [(''name'', JStr ''date'')]])] ''folder'')
   \<and> map_get [(''folder'', JStr ''posts''),
                    (''fields'',
                     JList [JMap [(''name'', JStr ''title''), (''translate'', JBool True)],
                            JMap [(''name'', JStr ''slug''), (''translate'', JBool True)],
                            JMap [(''name'', JStr ''body''), (''translate'', JBool True)],
                            JMap [(''name'', JStr ''date'')]])] ''fields'' = JList [JMap [(''name'', JStr ''title''), (''translate'', JBool True)],
                            JMap [(''name'', JStr ''slug''), (''translate'', JBool True)],
                            JMap [(''name'', JStr ''body''), (''translate'', JBool True)],
                            JMap [(''name'', JStr ''date'')]]"
proof -
  have h1: "applyDefaults sample_deps
     (JMap [(''languages'', JList [JStr ''en'', JStr ''fr'']),
      (''collections'',
       JList [JMap [(''folder'', JStr ''posts''),
                    (''fields'',
                     JList [JMap [(''name'', JStr ''title''), (''translate'', JBool True)],
                            JMap [(''name'', JStr ''slug''), (''translate'', JBool True)],
                            JMap [(''name'', JStr ''body''), (''translate'', JBool True)],
                            JMap [(''name'', JStr ''date'')]])]])])
   = Ok (JMap [(''publish_mode'', JStr ''simple''),
      (''languages'', JList [JStr ''en'', JStr ''fr'']),
      (''collections'',
       JList [JMap [(''folder'', JStr ''posts''),
                    (''fields'',
                     JList [JMap [(''name'', JStr ''title''), (''widget'', JStr ''object''),
                                  (''fields'',
                                   JList [JMap [(''name'', JStr ''en''), (''label'', JStr ''EN'')],
                                          JMap [(''name'', JStr ''fr''), (''label'', JStr ''FR'')]])],
                            JMap [(''name'', JStr ''slug''), (''translate'', JBool True)],
                            JMap [(''name'', JStr ''body''), (''translate'', JBool True)],
                            JMap [(''name'', JStr ''date'')]])]]),
      (''public_folder'', JStr ''/''),
      (''slug'', JMap [(''encoding'', JStr ''unicode''), (''clean_accents'', JBool False),
                       (''sanitize_replacement'', JStr ''-'')])])"
    by (simp add: applyDefaults_eval)
  have h2: "distinct (map fst [(''languages'', JList [JStr ''en'', JStr ''fr'']),
      (''collections'',
       JList [JMap [(''folder'', JStr ''posts''),
                    (''fields'',
                     JList [JMap [(''name'', JStr ''title''), (''translate'', JBool True)],
                            JMap [(''name'', JStr ''slug''), (''translate'', JBool True)],
                            JMap [(''name'', JStr ''body''), (''translate'', JBool True)],
                            JMap [(''name'', JStr ''date'')]])]])])"
    by simp
  have h3: "map_get [(''languages'', JList [JStr ''en'', JStr ''fr'']),
      (''collections'',
       JList [JMap [(''folder'', JStr ''posts''),
                    (''fields'',
                     JList [JMap [(''name'', JStr ''title''), (''translate'', JBool True)],
                            JMap [(''name'', JStr ''slug''), (''translate'', JBool True)],
                            JMap [(''name'', JStr ''body''), (''translate'', JBool True)],
                            JMap [(''name'', JStr ''date'')]])]])] ''languages'' = JList [JStr ''en'', JStr ''fr'']"
    by (simp add: map_get_def)
  have h4: "map_get [(''languages'', JList [JStr ''en'', JStr ''fr'']),
      (''collections'',
       JList [JMap [(''folder'', JStr ''posts''),
                    (''fields'',
                     JList [JMap [(''name'', JStr ''title''), (''translate'', JBool True)],
                            JMap [(''name'', JStr ''slug''), (''translate'', JBool True)],
                            JMap [(''name'', JStr ''body''), (''translate'', JBool True)],
                            JMap [(''name'', JStr ''date'')]])]])] ''collections'' = JList [JMap [(''folder'', JStr ''posts''),
                    (''fields'',
                     JList [JMap [(''name'', JStr ''title''), (''translate'', JBool True)],
                            JMap [(''name'', JStr ''slug''), (''translate'', JBool True)],
                            JMap [(''name'', JStr ''body''), (''translate'', JBool True)],
                            JMap [(''name'', JStr ''date'')]])]]"
    by (simp add: map_get_def)
  have h5: "(0::nat) < length [JMap [(''folder'', JStr ''posts''),
                    (''fields'',
                     JList [JMap [(''name'', JStr ''title''), (''translate'', JBool True)],
                            JMap [(''name'', JStr ''slug''), (''translate'', JBool True)],
                            JMap [(''name'', JStr ''body''), (''translate'', JBool True)],
                            JMap [(''name'', JStr ''date'')]])]]"
    by simp
  have h6: "[JMap [(''folder'', JStr ''posts''),
                    (''fields'',
                     JList [JMap [(''name'', JStr ''title''), (''translate'', JBool True)],
                            JMap [(''name'', JStr ''slug''), (''translate'', JBool True)],
                            JMap [(''name'', JStr ''body''), (''translate'', JBool True)],
                            JMap [(''name'', JStr ''date'')]])]] ! 0 = JMap [(''folder'', JStr ''posts''),
                    (''fields'',
                     JList [JMap [(''name'', JStr ''title''), (''translate'', JBool True)],
                            JMap [(''name'', JStr ''slug''), (''translate'', JBool True)],
                            JMap [(''name'', JStr ''body''), (''translate'', JBool True)],
                            JMap [(''name'', JStr ''date'')]])]"
    by simp
  have h7: "truthy (map_get [(''folder'', JStr ''posts''),
                    (''fields'',
                     JList [JMap [(''name'', JStr ''title''), (''translate'', JBool True)],
                            JMap [(''name'', JStr ''slug''), (''translate'', JBool True)],
                            JMap [(''name'', JStr ''body''), (''translate'', JBool True)],
                            JMap [(''name'', JStr ''date'')]])] ''folder'')"
    by (simp add: map_get_def)
  have h8: "map_get [(''folder'', JStr ''posts''),
                    (''fields'',
                     JList [JMap [(''name'', JStr ''title''), (''translate'', JBool True)],
                            JMap [(''name'', JStr ''slug''), (''translate'', JBool True)],
                            JMap [(''name'', JStr ''body''), (''translate'', JBool True)],
                            JMap [(''name'', JStr ''date'')]])] ''fields'' = JList [JMap [(''name'', JStr ''title''), (''translate'', JBool True)],
                            JMap [(''name'', JStr ''slug''), (''translate'', JBool True)],
                            JMap [(''name'', JStr ''body''), (''translate'', JBool True)],
                            JMap [(''name'', JStr ''date'')]]"
    by (simp add: map_get_def)
  note C5_language_fields[OF h1 h2 h3 h4 h5 h6 h7 h8]
  with h1 h2 h3 h4 h7 h8 show ?thesis by blast
qed

section \<open>The environment overlay\<close>

lemma hoist_lookup:
  assumes "hoist env config keys = Ok c"
    and "map_get config env = JMap overlay"
    and "env \<notin> set keys"
  shows "map_of c k =
          (if k \<in> set keys then Some (map_get overlay k) else map_of config k)"
  using assms
proof (induction keys arbitrary: config)
  case Nil
  then show ?case by simp
next
  case (Cons key keys)
  from Cons.prems(3) have ne: "key \<noteq> env" and nin: "env \<notin> set keys" by auto
  define v where "v = map_get overlay key"
  from Cons.prems(1,2) have h: "hoist env (map_set config key v) keys = Ok c"
    by (auto simp: v_def map_get_def split: if_splits option.splits)
  from Cons.prems(2) ne have "map_get (map_set config key v) env = JMap overlay"
    by (simp add: map_get_set)
  from Cons.IH[OF h this nin] show ?case
    by (auto simp: map_of_set v_def)
qed

text \<open>
  Where the overlay has no child named like the environment itself, every child of the
  overlay stands at the top level of the parsed document, and the other top-level keys
  stay.
\<close>

lemma parseConfig_hoists:
  assumes "parseConfig d (Some env) data = Ok r"
    and "safeLoad d data = Ok (JMap cfg)"
    and "map_of cfg env = Some (JMap overlay)"
    and "map_of overlay env = None"
  shows "\<exists>c. r = JMap c
     \<and> (\<forall>k. map_of c k = (case map_of overlay k of Some v \<Rightarrow> Some v | None \<Rightarrow> map_of cfg k))"
proof -
  from assms(1,2,3) obtain c where h: "hoist env cfg (map fst overlay) = Ok c" and r: "r = JMap c"
    by (auto simp: parseConfig_def dest!: and_then_Ok)
  from assms(3) have g: "map_get cfg env = JMap overlay" by (simp add: map_get_def)
  from assms(4) have n: "env \<notin> set (map fst overlay)"
    by (simp add: map_of_eq_None_iff)
  have "map_of c k = (case map_of overlay k of Some v \<Rightarrow> Some v | None \<Rightarrow> map_of cfg k)" for k
  proof (cases "map_of overlay k")
    case None
    then have "k \<notin> set (map fst overlay)" by (simp add: map_of_eq_None_iff)
    with hoist_lookup[OF h g n, of k] None show ?thesis by simp
  next
    case (Some v)
    then have "k \<in> set (map fst overlay)" by (metis map_of_eq_None_iff option.distinct(1) set_map)
    with hoist_lookup[OF h g n, of k] Some show ?thesis by (simp add: map_get_def)
  qed
  with r show ?thesis by blast
qed

text \<open>
  C8. \<^verbatim>\<open>parseConfig\<close> is to hoist every child of the key named like the environment. It
  does not when the overlay has a child of that very name: with \<^verbatim>\<open>CMS_ENV = 'production'\<close>
  and the document \<^verbatim>\<open>{production: {production: {x: 1}, a: 2}}\<close> the first assignment
  replaces the overlay, the second reads \<^verbatim>\<open>a\<close> from the replacement, and the top-level
  \<^verbatim>\<open>a\<close> is \<^verbatim>\<open>undefined\<close>, not \<^verbatim>\<open>2\<close>.
\<close>

theorem C8_self_named_child_not_hoisted:
  "parseConfig
     (sample_deps\<lparr>safeLoad := (\<lambda>s. Ok (JMap [(''production'',
         JMap [(''production'', JMap [(''x'', JNum 1)]), (''a'', JNum 2)])]))\<rparr>)
     (Some ''production'') ''production: {production: {x: 1}, a: 2}''
   = Ok (JMap [(''production'', JMap [(''x'', JNum 1)]), (''a'', JUndefined)])"
  by (simp add: parseConfig_def sample_deps_def map_get_def map_set_def object_prototype_props_def)

section \<open>Loading\<close>



text \<open>
  C1, as amended. When \<^verbatim>\<open>window.CMS_CONFIG\<close> is truthy, \<^verbatim>\<open>loadConfig\<close> fetches nothing
  and publishes the injected object as it is: the run consists of the one
  \<^verbatim>\<open>CONFIG_SUCCESS\<close> carrying \<^verbatim>\<open>fromJS\<close> of the object, whatever the validator would say
  of it.
\<close>

theorem C1_injected_published_directly:
  "truthy (CMS_CONFIG w) \<Longrightarrow>
   loadConfig d w = Run [Dispatched (CONFIG_SUCCESS (fromJS (CMS_CONFIG w)))] Resolved"
  by (simp add: loadConfig_def configDidLoad_def configLoaded_def)

theorem C1_injected_published_directly_witness:
  "truthy (CMS_CONFIG (sample_world\<lparr>CMS_CONFIG := JMap [(''foo'', JStr ''bar'')]\<rparr>))
   \<and> loadConfig sample_deps (sample_world\<lparr>CMS_CONFIG := JMap [(''foo'', JStr ''bar'')]\<rparr>)
       = Run [Dispatched (CONFIG_SUCCESS (JMap [(''foo'', JStr ''bar'')]))] Resolved"
  using C1_injected_published_directly
    [of "sample_world\<lparr>CMS_CONFIG := JMap [(''foo'', JStr ''bar'')]\<rparr>" sample_deps]
  by (simp add: fromJS_def)

text \<open>
  The claim as stated fails: the injected object \<^verbatim>\<open>{foo: 'bar'}\<close> is published although
  the validator rejects it.
\<close>

theorem C1_counterexample:
  "loadConfig sample_deps (sample_world\<lparr>CMS_CONFIG := JMap [(''foo'', JStr ''bar'')]\<rparr>)
     = Run [Dispatched (CONFIG_SUCCESS (JMap [(''foo'', JStr ''bar'')]))] Resolved
   \<and> validateConfig sample_deps (toJS (JMap [(''foo'', JStr ''bar'')]))
     = Some (External ''config should have required property backend'')"
  by (simp add: loadConfig_def configDidLoad_def configLoaded_def fromJS_def toJS_def
      sample_deps_def sample_world_def requires_backend_def map_has_def)



text \<open>
  C10. If the preloaded configuration has \<^verbatim>\<open>load_config_file\<close> equal to \<^verbatim>\<open>false\<close>, no
  run of \<^verbatim>\<open>loadConfig\<close> fetches anything; on the fetch path (no object injected by the
  host) the loaded document is the empty object, and when validation passes and
  \<^verbatim>\<open>applyDefaults\<close> of the preloaded configuration returns \<open>c\<close>, exactly \<open>c\<close> is published.
\<close>

theorem C10_no_fetch_preloaded_alone:
  assumes "store_config w = Some p"
    and "map_get p ''load_config_file'' = JBool False"
  shows "(\<forall>evs out. loadConfig d w = Run evs out \<longrightarrow> fetches evs = [])
       \<and> loaded_document d w = ([], Ok (JMap []))
       \<and> (\<forall>c. \<not> truthy (CMS_CONFIG w) \<and> validateConfig d (toJS (JMap p)) = None
              \<and> applyDefaults d (JMap p) = Ok c
            \<longrightarrow> (\<exists>evs out. loadConfig d w = Run evs out \<and> published evs = [c]))"
proof -
  have steps: "load_steps d w =
      ([], case validateConfig d (toJS (JMap p)) of Some e \<Rightarrow> Throw e
           | None \<Rightarrow> applyDefaults d (JMap p))"
    using assms
    by (simp add: load_steps_def loaded_document_def mergePreloadedConfig_def fromJS_def)
  have nofetch: "\<forall>evs out. loadConfig d w = Run evs out \<longrightarrow> fetches evs = []"
    using steps
    by (auto simp: loadConfig_def configDidLoad_def configLoaded_def configLoading_def
        configFailed_def split: if_splits result.splits option.splits)
  have pub: "\<forall>c. \<not> truthy (CMS_CONFIG w) \<and> validateConfig d (toJS (JMap p)) = None
              \<and> applyDefaults d (JMap p) = Ok c
            \<longrightarrow> (\<exists>evs out. loadConfig d w = Run evs out \<and> published evs = [c])"
    using steps
    by (auto simp: loadConfig_def configDidLoad_def configLoaded_def configLoading_def
        configFailed_def split: option.splits)
  have empty: "loaded_document d w = ([], Ok (JMap []))"
    using assms by (simp add: loaded_document_def)
  from nofetch empty pub show ?thesis by blast
qed

theorem C10_no_fetch_preloaded_alone_witness:
  "store_config (sample_world\<lparr>store_config :=
       Some [(''load_config_file'', JBool False), (''backend'', JMap [(''name'', JStr ''test-repo'')]),
             (''collections'', JList [])]\<rparr>)
     = Some [(''load_config_file'', JBool False), (''backend'', JMap [(''name'', JStr ''test-repo'')]),
             (''collections'', JList [])]
   \<and> map_get [(''load_config_file'', JBool False), (''backend'', JMap [(''name'', JStr ''test-repo'')]),
             (''collections'', JList [])] ''load_config_file'' = JBool False
   \<and> loadConfig sample_deps (sample_world\<lparr>store_config :=
       Some [(''load_config_file'', JBool False), (''backend'', JMap [(''name'', JStr ''test-repo'')]),
             (''collections'', JList [])]\<rparr>)
     = Run [Dispatched CONFIG_REQUEST,
            Dispatched (CONFIG_SUCCESS
              (JMap [(''publish_mode'', JStr ''simple''), (''load_config_file'', JBool False),
                     (''backend'', JMap [(''name'', JStr ''test-repo'')]),
                     (''collections'', JList []), (''public_folder'', JStr ''/''),
                     (''slug'', JMap [(''encoding'', JStr ''unicode''), (''clean_accents'', JBool False),
                                      (''sanitize_replacement'', JStr ''-'')])])),
            Dispatched AUTHENTICATE_USER] Resolved"
proof -
  have h1: "store_config (sample_world\<lparr>store_config :=
       Some [(''load_config_file'', JBool False), (''backend'', JMap [(''name'', JStr ''test-repo'')]),
             (''collections'', JList [])]\<rparr>)
     = Some [(''load_config_file'', JBool False), (''backend'', JMap [(''name'', JStr ''test-repo'')]),
             (''collections'', JList [])]"
    by simp
  have h2: "map_get [(''load_config_file'', JBool False), (''backend'', JMap [(''name'', JStr ''test-repo'')]),
             (''collections'', JList [])] ''load_config_file'' = JBool False"
    by (simp add: map_get_def)
  have run: "loadConfig sample_deps (sample_world\<lparr>store_config :=
       Some [(''load_config_file'', JBool False), (''backend'', JMap [(''name'', JStr ''test-repo'')]),
             (''collections'', JList [])]\<rparr>)
     = Run [Dispatched CONFIG_REQUEST,
            Dispatched (CONFIG_SUCCESS
              (JMap [(''publish_mode'', JStr ''simple''), (''load_config_file'', JBool False),
                     (''backend'', JMap [(''name'', JStr ''test-repo'')]),
                     (''collections'', JList []), (''public_folder'', JStr ''/''),
                     (''slug'', JMap [(''encoding'', JStr ''unicode''), (''clean_accents'', JBool False),
                                      (''sanitize_replacement'', JStr ''-'')])])),
            Dispatched AUTHENTICATE_USER] Resolved"
    by (simp add: loadConfig_def load_steps_def loaded_document_def mergePreloadedConfig_def
        applyDefaults_eval sample_world_def requires_backend_def
        configLoading_def configDidLoad_def configLoaded_def)
  show ?thesis using h1 h2 run
      C10_no_fetch_preloaded_alone[OF h1 h2, of sample_deps] by simp
qed

section \<open>A failed fetch\<close>

lemma parseConfig_empty:
  "safeLoad d [] = Ok JUndefined \<Longrightarrow>
   parseConfig d env [] = (case env of None \<Rightarrow> Ok JUndefined | Some e \<Rightarrow> Throw TypeError)"
  by (simp add: parseConfig_def split: option.splits)

text \<open>Without a preloaded configuration of more than one key, a failed fetch fails the load.\<close>

lemma fetch_failure_without_preloaded:
  assumes "\<not> truthy (CMS_CONFIG w)"
    and "fetch_failed (fetch w (getConfigUrl (config_link w))) = Some cause"
    and "store_config w = None
         \<or> (\<exists>p. store_config w = Some p \<and> map_get p ''load_config_file'' \<noteq> JBool False
                \<and> map_size p \<le> 1)"
  shows "loadConfig d w =
           Run [Dispatched CONFIG_REQUEST, Fetched (getConfigUrl (config_link w)),
                Dispatched (CONFIG_FAILURE (LoadError cause))]
             (Rejected (LoadError cause))"
proof -
  have "load_steps d w = ([Fetched (getConfigUrl (config_link w))], Throw (LoadError cause))"
    using assms(2,3)
    by (auto simp: load_steps_def loaded_document_def getConfig_def fetch_failed_def
        split: fetch_result.splits if_splits)
  with assms(1) show ?thesis
    by (simp add: loadConfig_def configLoading_def configFailed_def)
qed

text \<open>
  With a preloaded configuration of more than one key and no environment name, a failed
  fetch counts as the empty document: what is validated and given to \<^verbatim>\<open>applyDefaults\<close>
  is the preloaded configuration.
\<close>

lemma fetch_failure_with_preloaded:
  assumes "fetch_failed (fetch w (getConfigUrl (config_link w))) = Some cause"
    and "store_config w = Some p"
    and "map_get p ''load_config_file'' \<noteq> JBool False"
    and "map_size p > 1"
    and "CMS_ENV w = None"
    and "safeLoad d [] = Ok JUndefined"
  shows "load_steps d w =
           ([Fetched (getConfigUrl (config_link w))],
            case validateConfig d (toJS (JMap p)) of
              Some e \<Rightarrow> Throw e
            | None \<Rightarrow> applyDefaults d (JMap p))"
  using assms
  by (auto simp: load_steps_def loaded_document_def getConfig_def fetch_failed_def parseConfig_empty
      mergePreloadedConfig_def fromJS_def split: fetch_result.splits if_splits)

text \<open>
  C4. After a failed fetch a preloaded configuration of more than one key is to stand in,
  with the body taken as empty. With a build-time environment name it does not: the empty
  document parses to \<^verbatim>\<open>undefined\<close>, \<^verbatim>\<open>parseConfig\<close> reads \<^verbatim>\<open>config[CMS_ENV]\<close> of it and
  throws. For a preloaded configuration of two keys, \<^verbatim>\<open>CMS_ENV = 'production'\<close> and a 404,
  the load fails with a \<^verbatim>\<open>TypeError\<close>.
\<close>

theorem C4_fallback_throws_with_environment:
  "loadConfig sample_deps
     (sample_world\<lparr>CMS_ENV := Some ''production'',
                   store_config := Some [(''backend'', JMap [(''name'', JStr ''git-gateway'')]),
                                         (''collections'', JList [])]\<rparr>)
   = Run [Dispatched CONFIG_REQUEST, Fetched ''config.yml'', Dispatched (CONFIG_FAILURE TypeError)]
       (Rejected TypeError)"
  by (simp add: loadConfig_def load_steps_def loaded_document_def getConfig_def getConfigUrl_def
      parseConfig_def
      sample_deps_def sample_world_def not_found_def map_get_def map_size_def
      configLoading_def configFailed_def)

end
